theory Spec2Isabelle
  imports Complex_Main
begin

section \<open>Values\<close>

text \<open>
  Two kinds of JavaScript values occur in the viewers. Values read from storage or from a
  parsed payload are trees and are compared by content (\<open>json\<close>). Where the identity of an
  object matters (the settings accessors hand out objects that callers may mutate),
  objects and arrays live in a store and values refer to them by address (\<open>jsval\<close>).
\<close>

datatype json =
    JNull
  | JBool bool
  | JNum real
  | JNaN
  | JStr string
  | JArr "json list"
  | JObj "(string \<times> json) list"

type_synonym config = "string \<rightharpoonup> json"

type_synonym addr = nat

datatype jsval =
    Undefined
  | Null
  | Bool bool
  | Num real
  | Str string
  | Ref addr

type_synonym fields = "string \<rightharpoonup> jsval"

datatype cell = Obj fields | Arr "jsval list"

record store =
  cells :: "addr \<rightharpoonup> cell"
  next_addr :: addr

text \<open>Creating an object or array literal: a fresh address, never handed out before.\<close>

definition alloc :: "store \<Rightarrow> cell \<Rightarrow> addr \<times> store" where
  "alloc st c =
     (next_addr st, st\<lparr>cells := (cells st)(next_addr st \<mapsto> c), next_addr := Suc (next_addr st)\<rparr>)"

text \<open>The own enumerable properties an object spread \<open>{...x}\<close> copies from the object at an address.\<close>

definition fields_at :: "store \<Rightarrow> addr \<Rightarrow> fields" where
  "fields_at st a = (case cells st a of Some (Obj f) \<Rightarrow> f | _ \<Rightarrow> Map.empty)"

text \<open>JavaScript truthiness, as used by \<open>if (result.success)\<close>.\<close>

fun truthy :: "jsval \<Rightarrow> bool" where
  "truthy Undefined = False"
| "truthy Null = False"
| "truthy (Bool b) = b"
| "truthy (Num x) = (x \<noteq> 0)"
| "truthy (Str s) = (s \<noteq> [])"
| "truthy (Ref a) = True"

section \<open>SystemMonitor: the client core (monitor.ts)\<close>

datatype ConnectionState = Disconnected | Connecting | Connected | Error

text \<open>
  The fields of the class that the modelled methods read or write. \<open>currentSettings\<close> is a
  reference to the settings object in the store; \<open>onSettingsChanged\<close> is the registered
  handler, if any: it is given the store and the address of the settings object and either
  completes (\<open>True\<close>) or throws (\<open>False\<close>).
\<close>

record SystemMonitor =
  heap :: store
  currentSettings :: addr
  connectionState :: ConnectionState
  reconnectAttempts :: nat
  maxReconnectAttempts :: nat
  onSettingsChanged :: "(store \<Rightarrow> addr \<Rightarrow> bool) option"

subsection \<open>scheduleReconnect\<close>

text \<open>
  The result is the updated object and the delay in milliseconds handed to \<open>setTimeout\<close>,
  or \<open>None\<close> when the method returns without scheduling anything.
\<close>

definition scheduleReconnect :: "SystemMonitor \<Rightarrow> SystemMonitor \<times> nat option" where
  "scheduleReconnect m =
     (if reconnectAttempts m \<ge> maxReconnectAttempts m then (m, None)
      else
        let m' = m\<lparr>reconnectAttempts := reconnectAttempts m + 1\<rparr>;
            delay = min (1000 * 2 ^ reconnectAttempts m') 30000
        in (m', Some delay))"

text \<open>The delays of \<open>n\<close> consecutive calls (no successful connection in between), oldest first.\<close>

fun reconnect_run :: "SystemMonitor \<Rightarrow> nat \<Rightarrow> SystemMonitor \<times> nat option list" where
  "reconnect_run m 0 = (m, [])"
| "reconnect_run m (Suc n) =
     (let (m1, ds) = reconnect_run m n;
          (m2, d) = scheduleReconnect m1
      in (m2, ds @ [d]))"

subsection \<open>updateSettings\<close>

datatype 'a outcome = Throws | Returns 'a

text \<open>
  What \<open>fetch\<close> and \<open>response.json()\<close> give back. \<open>json_success\<close> is the outcome of
  reading \<open>(await response.json()).success\<close>: it throws when the body is not JSON (or is
  \<open>null\<close>), and is \<open>Undefined\<close> when the parsed body has no such property.
\<close>

record response =
  ok :: bool
  json_success :: "jsval outcome"

text \<open>The settings object currently held, as its properties.\<close>

definition settings_content :: "SystemMonitor \<Rightarrow> fields" where
  "settings_content m = fields_at (heap m) (currentSettings m)"

text \<open>
  \<open>newSettings\<close> is the partial settings object of the caller, given by its properties.
  The merged object is built before the request is sent; it becomes the current settings
  only on the success path. The handler call sits inside the same \<open>try\<close>, so a throwing
  handler makes the method return \<open>false\<close> after the assignment.
\<close>

definition updateSettings ::
  "SystemMonitor \<Rightarrow> fields \<Rightarrow> response outcome \<Rightarrow> bool \<times> SystemMonitor" where
  "updateSettings m newSettings fetched =
     (let (updatedSettings, h) =
            alloc (heap m) (Obj (fields_at (heap m) (currentSettings m) ++ newSettings));
          m1 = m\<lparr>heap := h\<rparr>
      in case fetched of
           Throws \<Rightarrow> (False, m1)
         | Returns resp \<Rightarrow>
             if ok resp then
               (case json_success resp of
                  Throws \<Rightarrow> (False, m1)
                | Returns success \<Rightarrow>
                    if truthy success then
                      (let m2 = m1\<lparr>currentSettings := updatedSettings\<rparr>
                       in case onSettingsChanged m2 of
                            None \<Rightarrow> (True, m2)
                          | Some handler \<Rightarrow>
                              if handler (heap m2) (currentSettings m2) then (True, m2)
                              else (False, m2))
                    else (False, m1))
             else (False, m1))"

text \<open>
  The three ways a request fails: \<open>fetch\<close> or \<open>json()\<close> throws, the response is not ok,
  or the body's \<open>success\<close> is falsy.
\<close>

fun request_failed :: "response outcome \<Rightarrow> bool" where
  "request_failed Throws = True"
| "request_failed (Returns resp) =
     (\<not> ok resp \<or> (case json_success resp of Throws \<Rightarrow> True | Returns v \<Rightarrow> \<not> truthy v))"

text \<open>Every address in use lies below the next free one.\<close>

definition settings_allocated :: "SystemMonitor \<Rightarrow> bool" where
  "settings_allocated m = (currentSettings m < next_addr (heap m))"

subsection \<open>The object as constructed\<close>

definition initial_settings :: fields where
  "initial_settings =
     [''enable_cpu'' \<mapsto> Bool True,
      ''enable_ram'' \<mapsto> Bool True,
      ''enable_disk'' \<mapsto> Bool True,
      ''enable_gpu'' \<mapsto> Bool True,
      ''enable_vram'' \<mapsto> Bool True,
      ''enable_temperature'' \<mapsto> Bool True,
      ''update_interval'' \<mapsto> Num 1,
      ''selected_drives'' \<mapsto> Ref 0,
      ''save'' \<mapsto> Bool False]"

text \<open>The array literal \<open>[]\<close> of \<open>selected_drives\<close> is created first, then the object holding it.\<close>

definition initial_monitor :: SystemMonitor where
  "initial_monitor =
     \<lparr>heap = \<lparr>cells = [0 \<mapsto> Arr [], 1 \<mapsto> Obj initial_settings], next_addr = 2\<rparr>,
      currentSettings = 1,
      connectionState = Disconnected,
      reconnectAttempts = 0,
      maxReconnectAttempts = 10,
      onSettingsChanged = None\<rparr>"

subsection \<open>The settings accessors\<close>

text \<open>The object spread \<open>{...x}\<close> on its own: a new object with the properties of the old one.\<close>

definition spread_copy :: "store \<Rightarrow> addr \<Rightarrow> addr \<times> store" where
  "spread_copy st a = alloc st (Obj (fields_at st a))"

text \<open>\<open>get settings()\<close> of SystemMonitor: the address returned and the object afterwards.\<close>

definition SystemMonitor_settings :: "SystemMonitor \<Rightarrow> addr \<times> SystemMonitor" where
  "SystemMonitor_settings m =
     (let (copy, h) = spread_copy (heap m) (currentSettings m) in (copy, m\<lparr>heap := h\<rparr>))"

text \<open>\<open>getSettings()\<close> of SettingsPanel, given the address held in \<open>this.settings\<close>.\<close>

definition SettingsPanel_getSettings :: "store \<Rightarrow> addr \<Rightarrow> addr \<times> store" where
  "SettingsPanel_getSettings st settings_ref = spread_copy st settings_ref"

text \<open>
  What a caller can do to an object it holds: assign or delete a property of the object
  itself (\<open>o[k] = v\<close>, \<open>delete o[k]\<close>), or go through a property to the array or object
  it refers to (\<open>o[k].push(v)\<close>, \<open>o[k][k2] = v\<close>). A statement that throws a TypeError
  (no array or object there) leaves the store as it is.
\<close>

datatype mutation =
    SetProp string jsval
  | DeleteProp string
  | Push string jsval
  | SetNested string string jsval

fun mutate :: "store \<Rightarrow> addr \<Rightarrow> mutation \<Rightarrow> store" where
  "mutate st a (SetProp k v) =
     (case cells st a of
        Some (Obj f) \<Rightarrow> st\<lparr>cells := (cells st)(a \<mapsto> Obj (f(k \<mapsto> v)))\<rparr>
      | _ \<Rightarrow> st)"
| "mutate st a (DeleteProp k) =
     (case cells st a of
        Some (Obj f) \<Rightarrow> st\<lparr>cells := (cells st)(a \<mapsto> Obj (f(k := None)))\<rparr>
      | _ \<Rightarrow> st)"
| "mutate st a (Push k v) =
     (case fields_at st a k of
        Some (Ref b) \<Rightarrow>
          (case cells st b of
             Some (Arr xs) \<Rightarrow> st\<lparr>cells := (cells st)(b \<mapsto> Arr (xs @ [v]))\<rparr>
           | _ \<Rightarrow> st)
      | _ \<Rightarrow> st)"
| "mutate st a (SetNested k k2 v) =
     (case fields_at st a k of
        Some (Ref b) \<Rightarrow>
          (case cells st b of
             Some (Obj f) \<Rightarrow> st\<lparr>cells := (cells st)(b \<mapsto> Obj (f(k2 \<mapsto> v)))\<rparr>
           | _ \<Rightarrow> st)
      | _ \<Rightarrow> st)"

fun own_property_write :: "mutation \<Rightarrow> bool" where
  "own_property_write (SetProp k v) = True"
| "own_property_write (DeleteProp k) = True"
| "own_property_write (Push k v) = False"
| "own_property_write (SetNested k k2 v) = False"

definition mutate_all :: "store \<Rightarrow> addr \<Rightarrow> mutation list \<Rightarrow> store" where
  "mutate_all st a ms = foldl (\<lambda>s. mutate s a) st ms"

text \<open>
  The configuration an object stands for: each property with the array or object it
  refers to read out of the store.
\<close>

datatype resolved = Plain jsval | Elements "jsval list" | Properties fields | Dangling

definition resolve :: "store \<Rightarrow> jsval \<Rightarrow> resolved" where
  "resolve st v =
     (case v of
        Ref b \<Rightarrow>
          (case cells st b of
             Some (Arr xs) \<Rightarrow> Elements xs
           | Some (Obj f) \<Rightarrow> Properties f
           | None \<Rightarrow> Dangling)
      | _ \<Rightarrow> Plain v)"

definition stored_configuration :: "store \<Rightarrow> addr \<Rightarrow> string \<rightharpoonup> resolved" where
  "stored_configuration st a = (\<lambda>k. map_option (resolve st) (fields_at st a k))"

text \<open>No property of the object at \<open>a\<close> refers to an address that is not in use yet.\<close>

definition refs_allocated :: "store \<Rightarrow> addr \<Rightarrow> bool" where
  "refs_allocated st a =
     (a < next_addr st \<and>
      (\<forall>v \<in> ran (fields_at st a). case v of Ref b \<Rightarrow> b < next_addr st | _ \<Rightarrow> True))"

text \<open>
  A store as a settings panel may have it: the settings object at address 2, its window
  size object and its drive list at addresses 0 and 1.
\<close>

definition panel_settings :: fields where
  "panel_settings =
     [''refreshRate'' \<mapsto> Num 1000, ''windowSize'' \<mapsto> Ref 0, ''selectedDiskDrives'' \<mapsto> Ref 1]"

definition panel_store :: store where
  "panel_store =
     \<lparr>cells = [0 \<mapsto> Obj [''width'' \<mapsto> Num 300, ''height'' \<mapsto> Num 200],
               1 \<mapsto> Arr [Str ''C:''],
               2 \<mapsto> Obj panel_settings],
      next_addr = 3\<rparr>"

section \<open>WindowManager and the window utilities\<close>

text \<open>
  Window geometry is in whole pixels. \<open>bounds\<close> is the shape shared by window bounds and
  display bounds; the window state extends it with the size constraints and the flags.
\<close>

record constraints =
  minWidth :: int
  minHeight :: int
  maxWidth :: int
  maxHeight :: int

record bounds =
  left :: int
  top :: int
  width :: int
  height :: int

record display =
  display_bounds :: bounds

record window_state = bounds +
  minWidth :: int
  minHeight :: int
  maxWidth :: int
  maxHeight :: int
  alwaysOnTop :: bool
  monitor :: nat

text \<open>
  The manager: its window state, the Chrome app window if one is open (by its bounds), and
  what \<open>localStorage\<close> holds under the storage key (the state last written).
\<close>

record WindowManager =
  windowState :: window_state
  currentWindow :: "bounds option"
  persisted :: "window_state option"

definition defaultConfig :: window_state where
  "defaultConfig =
     \<lparr>left = 100, top = 100, width = 300, height = 200,
      minWidth = 200, minHeight = 150, maxWidth = 800, maxHeight = 600,
      alwaysOnTop = True, monitor = 0\<rparr>"

text \<open>\<open>setItem\<close> may throw (the quota is exhausted); the exception is caught and logged.\<close>

definition saveWindowState :: "WindowManager \<Rightarrow> bool \<Rightarrow> WindowManager" where
  "saveWindowState wm setItem_ok =
     (if setItem_ok then wm\<lparr>persisted := Some (windowState wm)\<rparr> else wm)"

definition setWindowSize :: "WindowManager \<Rightarrow> int \<Rightarrow> int \<Rightarrow> bool \<Rightarrow> WindowManager" where
  "setWindowSize wm width0 height0 setItem_ok =
     (case currentWindow wm of
        None \<Rightarrow> wm
      | Some win \<Rightarrow>
          let ws = windowState wm;
              w = max (minWidth ws) (min width0 (maxWidth ws));
              h = max (minHeight ws) (min height0 (maxHeight ws));
              win' = win\<lparr>width := w, height := h\<rparr>;
              ws' = ws\<lparr>width := w, height := h\<rparr>
          in saveWindowState (wm\<lparr>currentWindow := Some win', windowState := ws'\<rparr>) setItem_ok)"

subsection \<open>WindowUtils and WindowValidator\<close>

definition display_contains :: "int \<Rightarrow> int \<Rightarrow> display \<Rightarrow> bool" where
  "display_contains x y d =
     (let b = display_bounds d
      in x \<ge> left b \<and> x < left b + width b \<and> y \<ge> top b \<and> y < top b + height b)"

definition findDisplayAt :: "int \<Rightarrow> int \<Rightarrow> display list \<Rightarrow> display option" where
  "findDisplayAt x y displays = find (display_contains x y) displays"

definition constrainToDisplay :: "bounds \<Rightarrow> bounds \<Rightarrow> bounds" where
  "constrainToDisplay windowBounds disp =
     (let newLeft = max (left disp)
                      (min (left windowBounds) (left disp + width disp - width windowBounds));
          newTop = max (top disp)
                     (min (top windowBounds) (top disp + height disp - height windowBounds))
      in \<lparr>left = newLeft, top = newTop,
          width = width windowBounds, height = height windowBounds\<rparr>)"

text \<open>\<open>displays[0]\<close> is only read when the list is not empty.\<close>

definition sanitizeBounds :: "bounds \<Rightarrow> constraints \<Rightarrow> display list \<Rightarrow> bounds" where
  "sanitizeBounds b c displays =
     (let sanitized =
            b\<lparr>width := max (constraints.minWidth c) (min (width b) (constraints.maxWidth c)),
              height := max (constraints.minHeight c) (min (height b) (constraints.maxHeight c))\<rparr>
      in case displays of
           [] \<Rightarrow> sanitized
         | d0 # _ \<Rightarrow>
             (let disp = (case findDisplayAt (left sanitized) (top sanitized) displays of
                            Some d \<Rightarrow> d
                          | None \<Rightarrow> d0)
              in constrainToDisplay sanitized (display_bounds disp)))"

text \<open>The size of a window state lies within its own constraints.\<close>

definition size_within :: "window_state \<Rightarrow> bool" where
  "size_within ws =
     (minWidth ws \<le> width ws \<and> width ws \<le> maxWidth ws \<and>
      minHeight ws \<le> height ws \<and> height ws \<le> maxHeight ws)"

definition persisted_within :: "WindowManager \<Rightarrow> bool" where
  "persisted_within wm = (case persisted wm of None \<Rightarrow> True | Some ws \<Rightarrow> size_within ws)"

text \<open>The manager once a window has been created from the default state.\<close>

definition open_manager :: WindowManager where
  "open_manager =
     \<lparr>windowState = defaultConfig,
      currentWindow = Some \<lparr>left = 100, top = 100, width = 300, height = 200\<rparr>,
      persisted = None\<rparr>"

section \<open>Loading settings\<close>

text \<open>
  The three load operations merge stored values over defaults with an object spread,
  \<open>{...defaults, ...stored}\<close>. A spread copies the own enumerable properties of its
  operand: the members of an object, the elements of an array and the characters of a
  string under their decimal indices, and nothing for a number, a boolean, \<open>null\<close> or
  \<open>undefined\<close>.
\<close>

fun dec :: "nat \<Rightarrow> string" where
  "dec n = (if n < 10 then [char_of (48 + n)] else dec (n div 10) @ [char_of (48 + n mod 10)])"

declare dec.simps [simp del]

definition index_props :: "json list \<Rightarrow> config" where
  "index_props xs = map_of (zip (map dec [0..<length xs]) xs)"

fun own_props :: "json \<Rightarrow> config" where
  "own_props (JObj members) = map_of members"
| "own_props (JArr xs) = index_props xs"
| "own_props (JStr s) = index_props (map (\<lambda>c. JStr [c]) s)"
| "own_props v = Map.empty"

text \<open>A property that may still be \<open>undefined\<close>: spreading \<open>undefined\<close> copies nothing.\<close>

definition spread_opt :: "config option \<Rightarrow> config" where
  "spread_opt c = (case c of None \<Rightarrow> Map.empty | Some f \<Rightarrow> f)"

subsection \<open>WindowManager.loadWindowState\<close>

text \<open>
  \<open>getItem\<close> gives the stored text or \<open>null\<close> (or throws); \<open>JSON_parse\<close> is the
  parser, \<open>None\<close> where it throws a SyntaxError. An empty text is falsy and skips the
  parse. The default configuration is the manager's \<open>defaultConfig\<close> as an object.
\<close>

definition loadWindowState ::
  "config \<Rightarrow> (string \<Rightarrow> json option) \<Rightarrow> string option outcome \<Rightarrow> config" where
  "loadWindowState defaults JSON_parse getItem =
     (case getItem of
        Throws \<Rightarrow> defaults
      | Returns None \<Rightarrow> defaults
      | Returns (Some saved) \<Rightarrow>
          if saved = [] then defaults
          else (case JSON_parse saved of
                  None \<Rightarrow> defaults
                | Some parsed \<Rightarrow> defaults ++ own_props parsed))"

definition defaultConfig_object :: config where
  "defaultConfig_object =
     [''width'' \<mapsto> JNum 300,
      ''height'' \<mapsto> JNum 200,
      ''minWidth'' \<mapsto> JNum 200,
      ''minHeight'' \<mapsto> JNum 150,
      ''maxWidth'' \<mapsto> JNum 800,
      ''maxHeight'' \<mapsto> JNum 600,
      ''left'' \<mapsto> JNum 100,
      ''top'' \<mapsto> JNum 100,
      ''alwaysOnTop'' \<mapsto> JBool True,
      ''monitor'' \<mapsto> JNum 0]"

subsection \<open>SettingsManager.loadSettings (extension settings page)\<close>

text \<open>
  \<open>chrome.storage.sync.get('settings')\<close> resolves to an object whose \<open>settings\<close>
  property is the stored value, or \<open>undefined\<close> when nothing is stored; a rejected call is
  caught. The constructor assigns \<open>defaultSettings\<close> before \<open>init\<close> loads.
\<close>

definition SettingsManager_defaultSettings :: config where
  "SettingsManager_defaultSettings =
     [''backendUrl'' \<mapsto> JStr ''http://localhost:8888'',
      ''updateInterval'' \<mapsto> JNum 2000,
      ''autoReconnect'' \<mapsto> JBool True,
      ''theme'' \<mapsto> JStr ''dark'',
      ''windowSize'' \<mapsto> JStr ''medium'',
      ''alwaysOnTop'' \<mapsto> JBool False,
      ''enableCPU'' \<mapsto> JBool True,
      ''enableMemory'' \<mapsto> JBool True,
      ''enableDisk'' \<mapsto> JBool True,
      ''enableGPU'' \<mapsto> JBool True,
      ''enableNotifications'' \<mapsto> JBool False,
      ''cpuThreshold'' \<mapsto> JNum 85,
      ''memoryThreshold'' \<mapsto> JNum 90]"

definition SettingsManager_loadSettings :: "config \<Rightarrow> json option outcome \<Rightarrow> config" where
  "SettingsManager_loadSettings defaults storage_get =
     (case storage_get of
        Throws \<Rightarrow> defaults
      | Returns None \<Rightarrow> defaults
      | Returns (Some stored) \<Rightarrow> defaults ++ own_props stored)"

subsection \<open>SettingsPanel (monitor window)\<close>

text \<open>
  The panel's two properties. Either is \<open>None\<close> while the constructor has not assigned
  it yet.
\<close>

record SettingsPanel =
  settings :: "config option"
  defaultSettings :: "config option"

definition SettingsPanel_loadSettings ::
  "SettingsPanel \<Rightarrow> (string \<Rightarrow> json option) \<Rightarrow> string option outcome \<Rightarrow> config" where
  "SettingsPanel_loadSettings this JSON_parse getItem =
     (case getItem of
        Throws \<Rightarrow> spread_opt (defaultSettings this)
      | Returns None \<Rightarrow> spread_opt (defaultSettings this)
      | Returns (Some saved) \<Rightarrow>
          if saved = [] then spread_opt (defaultSettings this)
          else (case JSON_parse saved of
                  None \<Rightarrow> spread_opt (defaultSettings this)
                | Some parsed \<Rightarrow> spread_opt (defaultSettings this) ++ own_props parsed))"

definition SettingsPanel_defaults :: config where
  "SettingsPanel_defaults =
     [''refreshRate'' \<mapsto> JNum 1000,
      ''enabledMonitors'' \<mapsto>
         JObj [(''cpu'', JBool True), (''memory'', JBool True), (''disk'', JBool True),
               (''gpu'', JBool True), (''vram'', JBool True), (''temperature'', JBool True)],
      ''enabledGPUs'' \<mapsto> JObj [],
      ''windowSize'' \<mapsto> JObj [(''width'', JNum 300), (''height'', JNum 200)],
      ''theme'' \<mapsto> JStr ''dark'',
      ''showTooltips'' \<mapsto> JBool True,
      ''showPercentages'' \<mapsto> JBool True,
      ''showValues'' \<mapsto> JBool True,
      ''animationSpeed'' \<mapsto> JNum 300,
      ''compactMode'' \<mapsto> JBool False,
      ''autoReconnect'' \<mapsto> JBool True,
      ''maxReconnectAttempts'' \<mapsto> JNum 10,
      ''temperatureUnit'' \<mapsto> JStr ''celsius'',
      ''diskDisplayMode'' \<mapsto> JStr ''percentage'',
      ''updateAnimation'' \<mapsto> JBool True,
      ''selectedDiskDrives'' \<mapsto> JArr [JStr ''C:''],
      ''colorScheme'' \<mapsto>
         JObj [(''cpu'', JStr ''#2196F3''), (''memory'', JStr ''#4CAF50''),
               (''disk'', JStr ''#FF9800''), (''gpu'', JStr ''#9C27B0''),
               (''vram'', JStr ''#E91E63''), (''temperature'', JStr ''#F44336''),
               (''background'', JStr ''#1a1a1a''), (''text'', JStr ''#ffffff''),
               (''accent'', JStr ''#0078d4'')],
      ''customColors'' \<mapsto> JBool False,
      ''windowPosition'' \<mapsto>
         JObj [(''x'', JNum 100), (''y'', JNum 100), (''remember'', JBool True)],
      ''windowLayout'' \<mapsto>
         JObj [(''columnsPerRow'', JNum 2), (''stackVertically'', JBool False),
               (''groupByType'', JBool True), (''showHeaders'', JBool True)],
      ''performanceSettings'' \<mapsto>
         JObj [(''enableVSync'', JBool True), (''reduceAnimations'', JBool False),
               (''backgroundThrottling'', JBool True), (''memoryOptimization'', JBool True),
               (''maxDataPoints'', JNum 100), (''enableProfiling'', JBool False)],
      ''notifications'' \<mapsto>
         JObj [(''enabled'', JBool True), (''cpuThreshold'', JNum 90),
               (''memoryThreshold'', JNum 85), (''temperatureThreshold'', JNum 80),
               (''soundEnabled'', JBool False)]]"

text \<open>
  The constructor up to the call of \<open>init\<close>, statement by statement:
  \<open>this.settings = this.loadSettings()\<close> runs first, \<open>this.defaultSettings = {...}\<close> after it.
\<close>

definition SettingsPanel_constructor ::
  "(string \<Rightarrow> json option) \<Rightarrow> string option outcome \<Rightarrow> SettingsPanel" where
  "SettingsPanel_constructor JSON_parse getItem =
     (let this0 = \<lparr>settings = None, defaultSettings = None\<rparr>;
          this1 = this0\<lparr>settings := Some (SettingsPanel_loadSettings this0 JSON_parse getItem)\<rparr>;
          this2 = this1\<lparr>defaultSettings := Some SettingsPanel_defaults\<rparr>
      in this2)"

section \<open>SettingsManager: the settings page form\<close>

text \<open>
  The form controls as \<open>collectFormData\<close> reads them: the text of a text input or select,
  the checked state of a checkbox, and for the three numeric inputs the result of
  \<open>parseInt\<close> on the text, \<open>None\<close> where that is \<open>NaN\<close>.
\<close>

record settings_form =
  backendUrl_value :: string
  updateInterval_value :: "int option"
  autoReconnect_checked :: bool
  theme_value :: string
  windowSize_value :: string
  alwaysOnTop_checked :: bool
  enableCPU_checked :: bool
  enableMemory_checked :: bool
  enableDisk_checked :: bool
  enableGPU_checked :: bool
  enableNotifications_checked :: bool
  cpuThreshold_value :: "int option"
  memoryThreshold_value :: "int option"

text \<open>
  The page: \<open>this.settings\<close>, the form, the \<open>settings\<close> item of \<open>chrome.storage.sync\<close>,
  the border colour of the interval input and the status message last shown (text and
  type).
\<close>

record SettingsManager =
  page_settings :: config
  form :: settings_form
  sync_storage :: "config option"
  updateInterval_border :: string
  status_message :: "(string \<times> string) option"

definition num_of :: "int option \<Rightarrow> json" where
  "num_of v = (case v of None \<Rightarrow> JNaN | Some n \<Rightarrow> JNum (of_int n))"

text \<open>Comparisons with \<open>NaN\<close> are false.\<close>

definition js_less :: "int option \<Rightarrow> int \<Rightarrow> bool" where
  "js_less v c = (case v of None \<Rightarrow> False | Some n \<Rightarrow> n < c)"

definition js_greater :: "int option \<Rightarrow> int \<Rightarrow> bool" where
  "js_greater v c = (case v of None \<Rightarrow> False | Some n \<Rightarrow> n > c)"

definition is_space :: "char \<Rightarrow> bool" where
  "is_space c = (c \<in> set [CHR '' '', CHR 0x09, CHR 0x0A, CHR 0x0B, CHR 0x0C, CHR 0x0D])"

definition trim :: "string \<Rightarrow> string" where
  "trim s = rev (dropWhile is_space (rev (dropWhile is_space s)))"

definition collectFormData :: "SettingsManager \<Rightarrow> SettingsManager" where
  "collectFormData sm =
     (let f = form sm
      in sm\<lparr>page_settings :=
           [''backendUrl'' \<mapsto> JStr (trim (backendUrl_value f)),
            ''updateInterval'' \<mapsto> num_of (updateInterval_value f),
            ''autoReconnect'' \<mapsto> JBool (autoReconnect_checked f),
            ''theme'' \<mapsto> JStr (theme_value f),
            ''windowSize'' \<mapsto> JStr (windowSize_value f),
            ''alwaysOnTop'' \<mapsto> JBool (alwaysOnTop_checked f),
            ''enableCPU'' \<mapsto> JBool (enableCPU_checked f),
            ''enableMemory'' \<mapsto> JBool (enableMemory_checked f),
            ''enableDisk'' \<mapsto> JBool (enableDisk_checked f),
            ''enableGPU'' \<mapsto> JBool (enableGPU_checked f),
            ''enableNotifications'' \<mapsto> JBool (enableNotifications_checked f),
            ''cpuThreshold'' \<mapsto> num_of (cpuThreshold_value f),
            ''memoryThreshold'' \<mapsto> num_of (memoryThreshold_value f)]\<rparr>)"

text \<open>\<open>chrome.storage.sync.set\<close> either stores the settings or rejects; a rejection is caught.\<close>

definition saveSettings :: "SettingsManager \<Rightarrow> bool \<Rightarrow> SettingsManager" where
  "saveSettings sm set_ok =
     (if set_ok then
        sm\<lparr>sync_storage := Some (page_settings sm),
           status_message := Some (''Settings saved successfully!'', ''success'')\<rparr>
      else sm\<lparr>status_message := Some (''Error saving settings!'', ''error'')\<rparr>)"

text \<open>The click listener of the Save button.\<close>

definition saveSettings_click :: "SettingsManager \<Rightarrow> bool \<Rightarrow> SettingsManager" where
  "saveSettings_click sm set_ok = saveSettings (collectFormData sm) set_ok"

text \<open>The \<open>change\<close> listener that \<open>setupFormValidation\<close> puts on the interval input.\<close>

definition updateInterval_change :: "SettingsManager \<Rightarrow> SettingsManager" where
  "updateInterval_change sm =
     (let interval = updateInterval_value (form sm)
      in if js_less interval 1000 \<or> js_greater interval 30000 then
           sm\<lparr>updateInterval_border := ''#f44336'',
              status_message := Some (''Update interval must be between 1000-30000ms'', ''error'')\<rparr>
         else sm\<lparr>updateInterval_border := ''#555''\<rparr>)"

text \<open>The user commits a new text in the interval input: the value changes, the listener runs.\<close>

definition enter_updateInterval :: "SettingsManager \<Rightarrow> int option \<Rightarrow> SettingsManager" where
  "enter_updateInterval sm v =
     updateInterval_change (sm\<lparr>form := (form sm)\<lparr>updateInterval_value := v\<rparr>\<rparr>)"

text \<open>The page after \<open>init\<close> on an empty storage: default settings, the form showing them.\<close>

definition loaded_page :: SettingsManager where
  "loaded_page =
     \<lparr>page_settings = SettingsManager_loadSettings SettingsManager_defaultSettings (Returns None),
      form = \<lparr>backendUrl_value = ''http://localhost:8888'',
               updateInterval_value = Some 2000,
               autoReconnect_checked = True,
               theme_value = ''dark'',
               windowSize_value = ''medium'',
               alwaysOnTop_checked = False,
               enableCPU_checked = True,
               enableMemory_checked = True,
               enableDisk_checked = True,
               enableGPU_checked = True,
               enableNotifications_checked = False,
               cpuThreshold_value = Some 85,
               memoryThreshold_value = Some 90\<rparr>,
      sync_storage = None,
      updateInterval_border = [],
      status_message = None\<rparr>"

text \<open>The interval a stored configuration holds.\<close>

definition stored_interval :: "SettingsManager \<Rightarrow> json option" where
  "stored_interval sm = (case sync_storage sm of None \<Rightarrow> None | Some c \<Rightarrow> c ''updateInterval'')"

section \<open>The popup's quick stats (popup.js)\<close>

text \<open>
  The status payload as the popup reads it: each reading may be absent. A rendered stat is
  either the \<open>toFixed(1)\<close> text of a number or a number printed as it is.
\<close>

record status_gpu =
  gpu_utilization :: "real option"

record status_payload =
  cpu_utilization :: "real option"
  ram_used_percent :: "real option"
  hdd_used_percent :: "real option"
  gpus :: "status_gpu list option"

datatype stat_value = Fixed1 real | Plain real

text \<open>
  \<open>x?.toFixed(1) || 0\<close>: the text of a number is never empty, so only an absent reading
  falls through to \<open>0\<close>.
\<close>

definition fixed_or_zero :: "real option \<Rightarrow> stat_value" where
  "fixed_or_zero x = (case x of None \<Rightarrow> Plain 0 | Some v \<Rightarrow> Fixed1 v)"

text \<open>\<open>x || 0\<close>: an absent reading and a reading of \<open>0\<close> both print \<open>0\<close>.\<close>

definition value_or_zero :: "real option \<Rightarrow> stat_value" where
  "value_or_zero x = (case x of None \<Rightarrow> Plain 0 | Some v \<Rightarrow> if v = 0 then Plain 0 else Plain v)"

text \<open>The stat items written into \<open>quickStats\<close>, as label and value (each followed by \<open>%\<close>).\<close>

definition updateQuickStats :: "status_payload \<Rightarrow> (string \<times> stat_value) list" where
  "updateQuickStats data =
     [(''CPU Usage'', fixed_or_zero (cpu_utilization data)),
      (''Memory Usage'', fixed_or_zero (ram_used_percent data)),
      (''Disk Usage'', fixed_or_zero (hdd_used_percent data))] @
     (case gpus data of
        None \<Rightarrow> []
      | Some [] \<Rightarrow> []
      | Some (gpu # _) \<Rightarrow> [(''GPU Usage'', value_or_zero (gpu_utilization gpu))])"

section \<open>MonitorUI: the progress bars (monitorUI.ts)\<close>

text \<open>
  The monitor data as the interfaces of monitor.ts declare it: the four sources are
  optional, the fields of a reading are not.
\<close>

record cpu_reading =
  usage :: real
  cores :: real
  frequency :: real

record DriveInfo =
  path :: string
  available :: bool
  total_bytes :: real
  used_bytes :: real
  free_bytes :: real
  used_percent :: real
  filesystem :: string
  device :: string

record memory_reading =
  total :: real
  used :: real
  available :: real
  percent :: real

record GPUInfo =
  index :: nat
  name :: string
  gpu_utilization :: real
  gpu_temperature :: real
  vram_total :: real
  vram_used :: real
  vram_used_percent :: real
  device_type :: string

record MonitorData =
  timestamp :: real
  cpu :: "cpu_reading option"
  memory :: "memory_reading option"
  gpus :: "GPUInfo list option"
  drives :: "DriveInfo list option"

text \<open>
  A progress bar element by what it shows: the label, the value and maximum with their
  unit (printed with \<open>toFixed(1)\<close> or \<open>formatBytes\<close>), the width of the fill in percent
  with its colour, and the percentage printed on the bar. A tooltip by the numbers its
  text is made of.
\<close>

record progress_bar =
  label_text :: string
  value_shown :: real
  max_shown :: real
  unit_shown :: string
  fill_width :: real
  fill_color :: string
  percent_text :: real

datatype tooltip =
    NoContent
  | MemoryTip real real real
  | DriveTip real real real string
  | VramTip real real

record MonitorUI =
  progressBars :: "string \<rightharpoonup> progress_bar"
  tooltips :: "string \<rightharpoonup> tooltip"
  showTooltips :: bool

definition color_cpu :: string where "color_cpu = ''#2196F3''"
definition color_memory :: string where "color_memory = ''#4CAF50''"
definition color_disk :: string where "color_disk = ''#FF9800''"
definition color_gpu :: string where "color_gpu = ''#9C27B0''"
definition color_vram :: string where "color_vram = ''#E91E63''"
definition color_temperature :: string where "color_temperature = ''#F44336''"

definition addTooltipSupport :: "MonitorUI \<Rightarrow> string \<Rightarrow> MonitorUI" where
  "addTooltipSupport ui ident = ui\<lparr>tooltips := (tooltips ui)(ident \<mapsto> NoContent)\<rparr>"

definition createProgressBar ::
  "MonitorUI \<Rightarrow> string \<Rightarrow> string \<Rightarrow> real \<Rightarrow> real \<Rightarrow> string \<Rightarrow> string \<Rightarrow> MonitorUI" where
  "createProgressBar ui ident label val vmax unit color =
     (let percent = (if vmax > 0 then (val / vmax) * 100 else 0);
          monitorItem = \<lparr>label_text = label, value_shown = val, max_shown = vmax,
                         unit_shown = unit, fill_width = percent, fill_color = color,
                         percent_text = percent\<rparr>;
          ui1 = ui\<lparr>progressBars := (progressBars ui)(ident \<mapsto> monitorItem)\<rparr>
      in if showTooltips ui1 then addTooltipSupport ui1 ident else ui1)"

definition updateProgressBar ::
  "MonitorUI \<Rightarrow> string \<Rightarrow> string \<Rightarrow> real \<Rightarrow> real \<Rightarrow> string \<Rightarrow> string \<Rightarrow> MonitorUI" where
  "updateProgressBar ui ident label val vmax unit color =
     (case progressBars ui ident of
        None \<Rightarrow> ui
      | Some element \<Rightarrow>
          (let percent = (if vmax > 0 then min ((val / vmax) * 100) 100 else 0)
           in ui\<lparr>progressBars := (progressBars ui)(ident \<mapsto>
                  element\<lparr>label_text := label, value_shown := val, max_shown := vmax,
                          unit_shown := unit, fill_width := percent, fill_color := color,
                          percent_text := percent\<rparr>)\<rparr>))"

definition updateProgressBarTooltip :: "MonitorUI \<Rightarrow> string \<Rightarrow> tooltip \<Rightarrow> MonitorUI" where
  "updateProgressBarTooltip ui ident content =
     (case tooltips ui ident of
        None \<Rightarrow> ui
      | Some _ \<Rightarrow> ui\<lparr>tooltips := (tooltips ui)(ident \<mapsto> content)\<rparr>)"

text \<open>\<open>initializeMonitorDisplays\<close>: the three bars every display starts with, at value 0.\<close>

definition initializeMonitorDisplays :: "MonitorUI \<Rightarrow> MonitorUI" where
  "initializeMonitorDisplays ui =
     createProgressBar
       (createProgressBar
          (createProgressBar ui ''cpu'' ''CPU Usage'' 0 100 ''%'' color_cpu)
          ''memory'' ''Memory Usage'' 0 100 ''%'' color_memory)
       ''disk-total'' ''Total Disk Usage'' 0 100 ''%'' color_disk"

subsection \<open>updateMonitorDisplays, block by block\<close>

definition is_alnum :: "char \<Rightarrow> bool" where
  "is_alnum c =
     (let n = of_char c :: nat
      in (48 \<le> n \<and> n \<le> 57) \<or> (65 \<le> n \<and> n \<le> 90) \<or> (97 \<le> n \<and> n \<le> 122))"

text \<open>
  The bar of a drive is keyed by its path with every character other than an ASCII letter
  or digit replaced by an underscore.
\<close>

definition driveId :: "DriveInfo \<Rightarrow> string" where
  "driveId drive = ''disk-'' @ map (\<lambda>c. if is_alnum c then c else CHR ''_'') (path drive)"

text \<open>The unit of the temperature bars, \<open>\<degree>C\<close>, in UTF-8.\<close>

definition degrees_C :: string where
  "degrees_C = [CHR 0xC2, CHR 0xB0, CHR ''C'']"

definition update_cpu :: "MonitorUI \<Rightarrow> MonitorData \<Rightarrow> MonitorUI" where
  "update_cpu ui data =
     (case cpu data of
        None \<Rightarrow> ui
      | Some c \<Rightarrow> updateProgressBar ui ''cpu'' ''CPU Usage'' (usage c) 100 ''%'' color_cpu)"

definition update_memory :: "MonitorUI \<Rightarrow> MonitorData \<Rightarrow> MonitorUI" where
  "update_memory ui data =
     (case memory data of
        None \<Rightarrow> ui
      | Some m \<Rightarrow>
          updateProgressBarTooltip
            (updateProgressBar ui ''memory'' ''Memory Usage'' (percent m) 100 ''%'' color_memory)
            ''memory'' (MemoryTip (used m) (total m) (available m)))"

fun each_drive :: "MonitorUI \<Rightarrow> DriveInfo list \<Rightarrow> MonitorUI" where
  "each_drive ui [] = ui"
| "each_drive ui (drive # rest) =
     (let ident = driveId drive;
          label = ''Drive '' @ path drive;
          ui1 = (if progressBars ui ident = None
                 then createProgressBar ui ident label (used_percent drive) 100 ''%'' color_disk
                 else updateProgressBar ui ident label (used_percent drive) 100 ''%'' color_disk);
          ui2 = updateProgressBarTooltip ui1 ident
                  (DriveTip (used_bytes drive) (total_bytes drive) (free_bytes drive)
                     (filesystem drive))
      in each_drive ui2 rest)"

definition update_drives :: "MonitorUI \<Rightarrow> MonitorData \<Rightarrow> MonitorUI" where
  "update_drives ui data =
     (case drives data of
        None \<Rightarrow> ui
      | Some ds \<Rightarrow>
          if length ds > 0 then
            (let totalUsed = sum_list (map used_bytes ds);
                 totalSpace = sum_list (map total_bytes ds);
                 totalPercent = (if totalSpace > 0 then (totalUsed / totalSpace) * 100 else 0);
                 ui1 = updateProgressBar ui ''disk-total'' ''Total Disk Usage'' totalPercent 100
                         ''%'' color_disk
             in each_drive ui1 ds)
          else ui)"

definition show_bar ::
  "MonitorUI \<Rightarrow> string \<Rightarrow> string \<Rightarrow> real \<Rightarrow> real \<Rightarrow> string \<Rightarrow> string \<Rightarrow> MonitorUI" where
  "show_bar ui ident label val vmax unit color =
     (if progressBars ui ident = None then createProgressBar ui ident label val vmax unit color
      else updateProgressBar ui ident label val vmax unit color)"

fun each_gpu :: "MonitorUI \<Rightarrow> nat \<Rightarrow> GPUInfo list \<Rightarrow> MonitorUI" where
  "each_gpu ui i [] = ui"
| "each_gpu ui i (gpu # rest) =
     (let gpuId = ''gpu-'' @ dec i;
          vramId = ''vram-'' @ dec i;
          tempId = ''temp-'' @ dec i;
          ui1 = show_bar ui gpuId (''GPU '' @ dec i @ '' ('' @ name gpu @ '')'')
                  (gpu_utilization gpu) 100 ''%'' color_gpu;
          ui2 = (if vram_total gpu > 0 then
                   updateProgressBarTooltip
                     (show_bar ui1 vramId (''GPU '' @ dec i @ '' VRAM'')
                        (vram_used_percent gpu) 100 ''%'' color_vram)
                     vramId (VramTip (vram_used gpu) (vram_total gpu))
                 else ui1);
          ui3 = (if gpu_temperature gpu > 0 then
                   show_bar ui2 tempId (''GPU '' @ dec i @ '' Temp'')
                     (gpu_temperature gpu) 90 degrees_C color_temperature
                 else ui2)
      in each_gpu ui3 (Suc i) rest)"

definition update_gpus :: "MonitorUI \<Rightarrow> MonitorData \<Rightarrow> MonitorUI" where
  "update_gpus ui data =
     (case gpus data of
        None \<Rightarrow> ui
      | Some gs \<Rightarrow> if length gs > 0 then each_gpu ui 0 gs else ui)"

definition updateMonitorDisplays :: "MonitorUI \<Rightarrow> MonitorData \<Rightarrow> MonitorUI" where
  "updateMonitorDisplays ui data =
     update_gpus (update_drives (update_memory (update_cpu ui data) data) data) data"

text \<open>A display just initialised, tooltips on.\<close>

definition fresh_display :: MonitorUI where
  "fresh_display =
     initializeMonitorDisplays \<lparr>progressBars = Map.empty, tooltips = Map.empty, showTooltips = True\<rparr>"

text \<open>A payload with no source sampled, and a status payload with no reading.\<close>

definition nothing_sampled :: MonitorData where
  "nothing_sampled = \<lparr>timestamp = 0, cpu = None, memory = None, gpus = None, drives = None\<rparr>"

definition empty_status :: status_payload where
  "empty_status =
     \<lparr>cpu_utilization = None, ram_used_percent = None, hdd_used_percent = None,
      status_payload.gpus = None\<rparr>"

section \<open>The sampler loop\<close>

text \<open>
  Modelled from the spec: the Sampler Loop, the Snapshot Aggregator and the Settings Store
  belong to the backend, which is not among the sources at hand (the viewers above are its
  subscribers). The definitions of this section follow sections 3, 4.2, 4.3 and 4.5 of
  the specification.
\<close>

text \<open>Modelled from the spec: the four hardware domains a Source Adapter exists for.\<close>

datatype source = CPU | Memory | Disk | GPU

text \<open>
  Modelled from the spec: the Configuration record (enabled sources, sampling interval,
  version incremented on every accepted update).
\<close>

record Configuration =
  enabled_sources :: "source list"
  interval :: nat
  version :: nat

text \<open>
  Modelled from the spec: a Snapshot with its sequence number, the time of the sample and
  the sources that were sampled at this tick; a source that is disabled or whose adapter
  failed is absent.
\<close>

record Snapshot =
  sequence :: nat
  taken_at :: nat
  sampled :: "source list"

text \<open>Modelled from the spec: the state machine of the loop, Stopped and Running.\<close>

datatype loop_state = Stopped | Running

text \<open>
  Modelled from the spec: the loop with the counter behind the sequence numbers, the
  configuration in effect, the latest configuration accepted by the Settings Store, and the
  snapshots handed to the Broadcast Hub so far, oldest first.
\<close>

record Sampler =
  loop :: loop_state
  next_sequence :: nat
  in_effect :: Configuration
  accepted :: Configuration
  published :: "Snapshot list"

text \<open>
  Modelled from the spec: what can happen to the loop. A tick carries the wall-clock time
  and the adapters that failed or timed out; a skipped tick is the one dropped after a slow
  aggregation; an update is a validated partial configuration (sources and interval).
\<close>

datatype event =
    Start
  | Stop
  | Tick nat "source list"
  | SkippedTick
  | Update "source list" nat

text \<open>
  Modelled from the spec: the aggregator runs the enabled adapters and keeps the readings
  that arrived; it emits a snapshot even when no source is enabled.
\<close>

definition aggregate :: "Configuration \<Rightarrow> nat \<Rightarrow> nat \<Rightarrow> source list \<Rightarrow> Snapshot" where
  "aggregate cfg seq now failed =
     \<lparr>sequence = seq, taken_at = now,
      sampled = filter (\<lambda>src. src \<notin> set failed) (enabled_sources cfg)\<rparr>"

text \<open>
  Modelled from the spec: one step of the loop. While running, a tick reads the
  configuration in effect, aggregates, publishes the snapshot under the next sequence
  number, and then adopts the accepted configuration if its version is strictly greater.
  A stopped loop publishes nothing. The sequence counter belongs to the process and is
  not reset by stopping and starting.
\<close>

fun step :: "Sampler \<Rightarrow> event \<Rightarrow> Sampler" where
  "step s Start = s\<lparr>loop := Running\<rparr>"
| "step s Stop = s\<lparr>loop := Stopped\<rparr>"
| "step s (Tick now failed) =
     (if loop s = Running then
        (let cfg = in_effect s;
             snap = aggregate cfg (next_sequence s) now failed
         in s\<lparr>published := published s @ [snap],
              next_sequence := next_sequence s + 1,
              in_effect := (if version (accepted s) > version cfg then accepted s else cfg)\<rparr>)
      else s)"
| "step s SkippedTick = s"
| "step s (Update srcs ms) =
     s\<lparr>accepted := \<lparr>enabled_sources = srcs, interval = ms,
                      version = version (accepted s) + 1\<rparr>\<rparr>"

text \<open>Modelled from the spec: the loop of a process, from its start through a list of events.\<close>

definition run :: "Sampler \<Rightarrow> event list \<Rightarrow> Sampler" where
  "run s es = foldl step s es"

text \<open>Modelled from the spec: the loop at process start, created with the default configuration.\<close>

definition initial_sampler :: "Configuration \<Rightarrow> Sampler" where
  "initial_sampler cfg =
     \<lparr>loop = Stopped, next_sequence = 0, in_effect = cfg, accepted = cfg, published = []\<rparr>"

definition default_configuration :: Configuration where
  "default_configuration = \<lparr>enabled_sources = [CPU, Memory, Disk, GPU], interval = 1000, version = 0\<rparr>"

text \<open>
  A payload with readings for cpu and memory only, the display after it, a payload whose
  cpu reading is 0, and a status payload whose first GPU has no utilization.
\<close>

definition first_reading :: MonitorData where
  "first_reading =
     \<lparr>timestamp = 1,
      cpu = Some \<lparr>usage = 42, cores = 8, frequency = 3000\<rparr>,
      memory = Some \<lparr>total = 16, used = 8, available = 8, percent = 50\<rparr>,
      gpus = None, drives = None\<rparr>"

definition sampled_display :: MonitorUI where
  "sampled_display = updateMonitorDisplays fresh_display first_reading"

definition zero_cpu_reading :: MonitorData where
  "zero_cpu_reading =
     \<lparr>timestamp = 1,
      cpu = Some \<lparr>usage = 0, cores = 8, frequency = 3000\<rparr>,
      memory = None, gpus = None, drives = None\<rparr>"

definition gpu_without_utilization :: status_payload where
  "gpu_without_utilization =
     \<lparr>cpu_utilization = Some 12, ram_used_percent = Some 40, hdd_used_percent = Some 70,
      status_payload.gpus = Some [\<lparr>status_gpu.gpu_utilization = None\<rparr>]\<rparr>"

section \<open>Reconnect scheduling\<close>

lemma reconnect_run_attempts:
  "maxReconnectAttempts m = 10 \<Longrightarrow> reconnectAttempts m = 0 \<Longrightarrow>
   reconnectAttempts (fst (reconnect_run m n)) = min n 10 \<and>
   maxReconnectAttempts (fst (reconnect_run m n)) = 10 \<and>
   length (snd (reconnect_run m n)) = n"
  by (induction n) (auto simp: scheduleReconnect_def Let_def split: prod.splits)

text \<open>
  C9. Starting from a connection object whose counter is 0 and whose maximum is 10, the
  n-th consecutive call of scheduleReconnect (n at least 1) schedules a reconnect after
  min(1000 * 2^n, 30000) ms while n is at most 10 and schedules nothing after that; the
  counter never exceeds 10, and once 10 calls have been made a further call returns
  without scheduling and leaves the object as it is.
\<close>

theorem scheduleReconnect_bounded:
  assumes "maxReconnectAttempts m = 10" and "reconnectAttempts m = 0" and "1 \<le> n"
  shows "snd (reconnect_run m n) ! (n - 1) =
           (if n \<le> 10 then Some (min (1000 * 2 ^ n) 30000) else None) \<and>
         reconnectAttempts (fst (reconnect_run m n)) \<le> 10 \<and>
         (10 \<le> n \<longrightarrow>
            scheduleReconnect (fst (reconnect_run m n)) = (fst (reconnect_run m n), None))"
proof -
  obtain k where n: "n = Suc k" using assms(3) by (cases n) auto
  have att: "reconnectAttempts (fst (reconnect_run m k)) = min k 10"
    and mx: "maxReconnectAttempts (fst (reconnect_run m k)) = 10"
    and len: "length (snd (reconnect_run m k)) = k"
    using reconnect_run_attempts [OF assms(1,2), of k] by auto
  have nth: "snd (reconnect_run m n) ! (n - 1) =
           (if n \<le> 10 then Some (min (1000 * 2 ^ n) 30000) else None)"
    using att mx len unfolding n
    by (auto simp: scheduleReconnect_def Let_def nth_append split: prod.splits)
  have after: "reconnectAttempts (fst (reconnect_run m n)) = min n 10"
    and mx': "maxReconnectAttempts (fst (reconnect_run m n)) = 10"
    using reconnect_run_attempts [OF assms(1,2), of n] by auto
  have stop: "10 \<le> n \<longrightarrow>
      scheduleReconnect (fst (reconnect_run m n)) = (fst (reconnect_run m n), None)"
    using after mx' by (simp add: scheduleReconnect_def)
  from nth after stop show ?thesis by simp
qed

theorem scheduleReconnect_bounded_witness:
  "maxReconnectAttempts initial_monitor = 10 \<and> reconnectAttempts initial_monitor = 0 \<and>
   (1::nat) \<le> 10 \<and>
   snd (reconnect_run initial_monitor 10) ! 9 = Some 30000 \<and>
   scheduleReconnect (fst (reconnect_run initial_monitor 10)) =
     (fst (reconnect_run initial_monitor 10), None)"
proof -
  have a: "maxReconnectAttempts initial_monitor = 10" by (simp add: initial_monitor_def)
  have b: "reconnectAttempts initial_monitor = 0" by (simp add: initial_monitor_def)
  have c: "(1::nat) \<le> 10" by simp
  show ?thesis using a b scheduleReconnect_bounded [OF a b c] by simp
qed

section \<open>Settings updates\<close>

lemma updateSettings_applied:
  "fst (updateSettings m p r) \<Longrightarrow>
   settings_content (snd (updateSettings m p r)) = settings_content m ++ p"
  by (auto simp: updateSettings_def settings_content_def alloc_def fields_at_def Let_def
           split: outcome.splits if_splits option.splits)

lemma updateSettings_content_cases:
  "settings_content (snd (updateSettings m p r)) = settings_content m ++ p \<or>
   (settings_allocated m \<longrightarrow> settings_content (snd (updateSettings m p r)) = settings_content m)"
  by (auto simp: updateSettings_def settings_content_def settings_allocated_def alloc_def
                 fields_at_def Let_def
           split: outcome.splits if_splits option.splits)

lemma updateSettings_allocated:
  "settings_allocated m \<Longrightarrow> settings_allocated (snd (updateSettings m p r))"
  by (auto simp: updateSettings_def settings_allocated_def alloc_def Let_def
           split: outcome.splits if_splits option.splits)

text \<open>
  C3. updateSettings is idempotent under retry: when a call with the partial settings p
  has gone through (returned true), the stored settings are the old ones with p merged in,
  and sending the same p again, whatever the outcome of the second request, leaves the
  stored settings with exactly that content.
\<close>

theorem updateSettings_idempotent:
  assumes "settings_allocated m" and "fst (updateSettings m p r1)"
  shows "settings_content (snd (updateSettings m p r1)) = settings_content m ++ p \<and>
         settings_content (snd (updateSettings (snd (updateSettings m p r1)) p r2)) =
           settings_content (snd (updateSettings m p r1))"
proof -
  let ?m1 = "snd (updateSettings m p r1)"
  have once: "settings_content ?m1 = settings_content m ++ p"
    using assms(2) by (rule updateSettings_applied)
  have wf1: "settings_allocated ?m1"
    using assms(1) by (rule updateSettings_allocated)
  have "settings_content (snd (updateSettings ?m1 p r2)) = settings_content ?m1 ++ p \<or>
        settings_content (snd (updateSettings ?m1 p r2)) = settings_content ?m1"
    using updateSettings_content_cases [of ?m1 p r2] wf1 by blast
  moreover have "settings_content ?m1 ++ p = settings_content ?m1"
    unfolding once by (rule ext) (simp add: map_add_def split: option.split)
  ultimately show ?thesis using once by auto
qed

theorem updateSettings_idempotent_witness:
  "settings_allocated initial_monitor \<and>
   fst (updateSettings initial_monitor [''update_interval'' \<mapsto> Num 2]
          (Returns \<lparr>ok = True, json_success = Returns (Bool True)\<rparr>)) \<and>
   settings_content
     (snd (updateSettings
        (snd (updateSettings initial_monitor [''update_interval'' \<mapsto> Num 2]
                (Returns \<lparr>ok = True, json_success = Returns (Bool True)\<rparr>)))
        [''update_interval'' \<mapsto> Num 2]
        (Returns \<lparr>ok = True, json_success = Returns (Bool True)\<rparr>))) ''update_interval'' =
     Some (Num 2)"
proof -
  let ?p = "[''update_interval'' \<mapsto> Num 2]"
  let ?r = "Returns \<lparr>ok = True, json_success = Returns (Bool True)\<rparr>"
  have a: "settings_allocated initial_monitor"
    by (simp add: settings_allocated_def initial_monitor_def)
  have b: "fst (updateSettings initial_monitor ?p ?r)"
    by (simp add: updateSettings_def initial_monitor_def alloc_def Let_def)
  show ?thesis
    using a b updateSettings_idempotent [OF a b, of ?r] by simp
qed

text \<open>
  C4. When the request fails (fetch or json() throws, the response is not ok, or the body's
  success is falsy), updateSettings returns false, the monitor still refers to the same
  settings object, that object has the same properties, and no object or array that
  existed before the call has changed.
\<close>

theorem updateSettings_failure_unchanged:
  assumes "settings_allocated m" and "request_failed r"
  shows "\<not> fst (updateSettings m p r) \<and>
         currentSettings (snd (updateSettings m p r)) = currentSettings m \<and>
         settings_content (snd (updateSettings m p r)) = settings_content m \<and>
         (\<forall>b < next_addr (heap m).
            cells (heap (snd (updateSettings m p r))) b = cells (heap m) b)"
  using assms
  by (cases r)
     (auto simp: updateSettings_def settings_content_def settings_allocated_def alloc_def
                 fields_at_def Let_def
           split: outcome.splits option.splits)

theorem updateSettings_failure_unchanged_witness:
  "settings_allocated initial_monitor \<and>
   request_failed (Returns \<lparr>ok = True, json_success = Returns (Bool False)\<rparr>) \<and>
   \<not> fst (updateSettings initial_monitor [''update_interval'' \<mapsto> Num 2]
            (Returns \<lparr>ok = True, json_success = Returns (Bool False)\<rparr>)) \<and>
   settings_content
     (snd (updateSettings initial_monitor [''update_interval'' \<mapsto> Num 2]
            (Returns \<lparr>ok = True, json_success = Returns (Bool False)\<rparr>))) =
     settings_content initial_monitor"
proof -
  let ?r = "Returns \<lparr>ok = True, json_success = Returns (Bool False)\<rparr>"
  have a: "settings_allocated initial_monitor"
    by (simp add: settings_allocated_def initial_monitor_def)
  have b: "request_failed ?r" by simp
  show ?thesis
    using a b updateSettings_failure_unchanged [OF a b, of "[''update_interval'' \<mapsto> Num 2]"]
    by simp
qed


section \<open>The settings accessors hand out shallow copies\<close>

lemma mutate_own_other:
  "own_property_write mu \<Longrightarrow> b \<noteq> a \<Longrightarrow> cells (mutate st a mu) b = cells st b"
  by (cases mu) (auto split: option.splits cell.splits)

lemma mutate_all_own_other:
  "\<forall>mu \<in> set ms. own_property_write mu \<Longrightarrow> b \<noteq> a \<Longrightarrow>
   cells (mutate_all st a ms) b = cells st b"
  unfolding mutate_all_def
  by (induction ms arbitrary: st) (auto simp: mutate_own_other)

lemma stored_configuration_cong:
  assumes "refs_allocated st a" and "\<forall>b < next_addr st. cells st' b = cells st b"
  shows "stored_configuration st' a = stored_configuration st a"
proof (rule ext)
  fix k
  have same: "fields_at st' a = fields_at st a"
    using assms by (simp add: refs_allocated_def fields_at_def)
  show "stored_configuration st' a k = stored_configuration st a k"
  proof (cases "fields_at st a k")
    case None
    then show ?thesis by (simp add: stored_configuration_def same)
  next
    case (Some v)
    then have "v \<in> ran (fields_at st a)" by (auto simp: ran_def)
    then have "case v of Ref b \<Rightarrow> b < next_addr st | _ \<Rightarrow> True"
      using assms(1) by (auto simp: refs_allocated_def)
    then have "resolve st' v = resolve st v"
      using assms(2) by (cases v) (auto simp: resolve_def)
    then show ?thesis by (simp add: stored_configuration_def same Some)
  qed
qed

lemma spread_copy_isolated:
  assumes "spread_copy st a = (copy, st1)" and "\<forall>mu \<in> set ms. own_property_write mu"
  shows "\<forall>b < next_addr st. cells (mutate_all st1 copy ms) b = cells st b"
proof (intro allI impI)
  fix b assume b: "b < next_addr st"
  have copy: "copy = next_addr st" and old: "cells st1 b = cells st b"
    using assms(1) b by (auto simp: spread_copy_def alloc_def)
  have "cells (mutate_all st1 copy ms) b = cells st1 b"
    using assms(2) b copy by (intro mutate_all_own_other) auto
  then show "cells (mutate_all st1 copy ms) b = cells st b" using old by simp
qed

lemma spread_copy_properties:
  "spread_copy st a = (copy, st1) \<Longrightarrow> fields_at st1 copy = fields_at st a"
  by (auto simp: spread_copy_def alloc_def fields_at_def)

lemma refs_allocated_ref:
  "refs_allocated st a \<Longrightarrow> fields_at st a k = Some (Ref b) \<Longrightarrow> b < next_addr st"
  by (auto simp: refs_allocated_def ran_def)

lemma spread_copy_shares_array:
  assumes "refs_allocated st a" and "spread_copy st a = (copy, st1)"
    and "fields_at st a k = Some (Ref b)" and "cells st b = Some (Arr xs)"
  shows "cells (mutate st1 copy (Push k v)) b = Some (Arr (xs @ [v])) \<and>
         stored_configuration (mutate st1 copy (Push k v)) a k = Some (Elements (xs @ [v]))"
proof -
  have b: "b < next_addr st" using assms(1,3) by (rule refs_allocated_ref)
  have st1: "st1 = st\<lparr>cells := (cells st)(next_addr st \<mapsto> Obj (fields_at st a)),
                       next_addr := Suc (next_addr st)\<rparr>"
    using assms(2) by (auto simp: spread_copy_def alloc_def)
  have ab: "a \<noteq> b" using assms(3,4) by (auto simp: fields_at_def)
  have a: "a < next_addr st" using assms(1) by (simp add: refs_allocated_def)
  have fk: "fields_at st1 copy k = Some (Ref b)"
    using spread_copy_properties [OF assms(2)] assms(3) by simp
  have cb: "cells st1 b = Some (Arr xs)" using b assms(4) by (simp add: st1)
  have mut: "mutate st1 copy (Push k v) = st1\<lparr>cells := (cells st1)(b \<mapsto> Arr (xs @ [v]))\<rparr>"
    using fk cb by simp
  have cells_b: "cells (mutate st1 copy (Push k v)) b = Some (Arr (xs @ [v]))"
    unfolding mut by simp
  have "cells (mutate st1 copy (Push k v)) a = cells st a"
    unfolding mut using ab a by (simp add: st1)
  then have "fields_at (mutate st1 copy (Push k v)) a = fields_at st a"
    by (simp add: fields_at_def)
  then have "stored_configuration (mutate st1 copy (Push k v)) a k = Some (Elements (xs @ [v]))"
    using assms(3) cells_b by (simp add: stored_configuration_def resolve_def)
  then show ?thesis using cells_b by simp
qed

lemma spread_copy_shares_object:
  assumes "refs_allocated st a" and "spread_copy st a = (copy, st1)"
    and "fields_at st a k = Some (Ref b)" and "cells st b = Some (Obj f)"
  shows "cells (mutate st1 copy (SetNested k k2 v)) b = Some (Obj (f(k2 \<mapsto> v)))"
proof -
  have b: "b < next_addr st" using assms(1,3) by (rule refs_allocated_ref)
  have st1: "st1 = st\<lparr>cells := (cells st)(next_addr st \<mapsto> Obj (fields_at st a)),
                       next_addr := Suc (next_addr st)\<rparr>"
    using assms(2) by (auto simp: spread_copy_def alloc_def)
  have fk: "fields_at st1 copy k = Some (Ref b)"
    using spread_copy_properties [OF assms(2)] assms(3) by simp
  have cb: "cells st1 b = Some (Obj f)" using b assms(4) by (simp add: st1)
  show ?thesis using fk cb by simp
qed

lemma spread_copy_same_configuration:
  assumes "refs_allocated st a" and "spread_copy st a = (copy, st1)"
  shows "stored_configuration st1 copy = stored_configuration st a"
proof (rule ext)
  fix k
  have f: "fields_at st1 copy = fields_at st a"
    using assms(2) by (rule spread_copy_properties)
  have old: "\<And>b. b < next_addr st \<Longrightarrow> cells st1 b = cells st b"
    using assms(2) by (auto simp: spread_copy_def alloc_def)
  show "stored_configuration st1 copy k = stored_configuration st a k"
  proof (cases "fields_at st a k")
    case None
    then show ?thesis by (simp add: stored_configuration_def f)
  next
    case (Some v)
    have "resolve st1 v = resolve st v"
    proof (cases v)
      case (Ref b)
      then have "b < next_addr st" using Some assms(1) by (auto intro: refs_allocated_ref)
      then show ?thesis using old Ref by (simp add: resolve_def)
    qed (simp_all add: resolve_def)
    then show ?thesis by (simp add: stored_configuration_def f Some)
  qed
qed

text \<open>What one spread copy gives, and what it does not.\<close>

lemma spread_copy_shallow:
  assumes "refs_allocated st a" and "spread_copy st a = (copy, st1)"
    and "\<forall>mu \<in> set ms. own_property_write mu"
  shows "copy \<noteq> a \<and>
         fields_at st1 copy = fields_at st a \<and>
         stored_configuration st1 copy = stored_configuration st a \<and>
         stored_configuration (mutate_all st1 copy ms) a = stored_configuration st a \<and>
         (\<forall>k b xs v. fields_at st a k = Some (Ref b) \<longrightarrow> cells st b = Some (Arr xs) \<longrightarrow>
            stored_configuration (mutate st1 copy (Push k v)) a k = Some (Elements (xs @ [v]))) \<and>
         (\<forall>k b f k2 v. fields_at st a k = Some (Ref b) \<longrightarrow> cells st b = Some (Obj f) \<longrightarrow>
            cells (mutate st1 copy (SetNested k k2 v)) b = Some (Obj (f(k2 \<mapsto> v))))"
proof -
  have fresh: "copy \<noteq> a"
    using assms(1,2) by (auto simp: spread_copy_def alloc_def refs_allocated_def)
  have "\<forall>b < next_addr st. cells (mutate_all st1 copy ms) b = cells st b"
    using assms(2,3) by (rule spread_copy_isolated)
  then have iso: "stored_configuration (mutate_all st1 copy ms) a = stored_configuration st a"
    using assms(1) by (intro stored_configuration_cong) auto
  show ?thesis
    using fresh iso spread_copy_properties [OF assms(2)]
          spread_copy_same_configuration [OF assms(1,2)]
          spread_copy_shares_array [OF assms(1,2)]
          spread_copy_shares_object [OF assms(1,2)]
    by blast
qed

text \<open>
  C7 as amended. The settings accessor of SystemMonitor and getSettings of SettingsPanel
  return a new object, distinct from the stored one, that holds exactly the properties of
  the stored object and stands for the same configuration (a shallow copy). For every
  sequence of assignments to and deletions of properties of the returned object itself,
  the stored configuration is unchanged. Arrays and objects held in properties are shared,
  not copied: for every property of the stored object that refers to an array, a push
  through the returned object appends to the array of the stored configuration, and for
  every property that refers to an object, an assignment through the returned object
  changes that object.
\<close>

theorem settings_accessor_shallow_copy:
  assumes "refs_allocated (heap m) (currentSettings m)"
    and "refs_allocated st settings_ref"
    and "\<forall>mu \<in> set ms. own_property_write mu"
  shows "fst (SystemMonitor_settings m) \<noteq> currentSettings m \<and>
         currentSettings (snd (SystemMonitor_settings m)) = currentSettings m \<and>
         fields_at (heap (snd (SystemMonitor_settings m))) (fst (SystemMonitor_settings m)) =
           settings_content m \<and>
         stored_configuration (heap (snd (SystemMonitor_settings m)))
           (fst (SystemMonitor_settings m)) =
           stored_configuration (heap m) (currentSettings m) \<and>
         stored_configuration
           (mutate_all (heap (snd (SystemMonitor_settings m))) (fst (SystemMonitor_settings m)) ms)
           (currentSettings m) =
           stored_configuration (heap m) (currentSettings m) \<and>
         (\<forall>k b xs v. settings_content m k = Some (Ref b) \<longrightarrow> cells (heap m) b = Some (Arr xs) \<longrightarrow>
            stored_configuration
              (mutate (heap (snd (SystemMonitor_settings m))) (fst (SystemMonitor_settings m))
                 (Push k v))
              (currentSettings m) k = Some (Elements (xs @ [v]))) \<and>
         (\<forall>k b f k2 v. settings_content m k = Some (Ref b) \<longrightarrow> cells (heap m) b = Some (Obj f) \<longrightarrow>
            cells (mutate (heap (snd (SystemMonitor_settings m))) (fst (SystemMonitor_settings m))
                     (SetNested k k2 v)) b = Some (Obj (f(k2 \<mapsto> v)))) \<and>
         fst (SettingsPanel_getSettings st settings_ref) \<noteq> settings_ref \<and>
         fields_at (snd (SettingsPanel_getSettings st settings_ref))
           (fst (SettingsPanel_getSettings st settings_ref)) = fields_at st settings_ref \<and>
         stored_configuration (snd (SettingsPanel_getSettings st settings_ref))
           (fst (SettingsPanel_getSettings st settings_ref)) =
           stored_configuration st settings_ref \<and>
         stored_configuration
           (mutate_all (snd (SettingsPanel_getSettings st settings_ref))
              (fst (SettingsPanel_getSettings st settings_ref)) ms)
           settings_ref =
           stored_configuration st settings_ref \<and>
         (\<forall>k b xs v. fields_at st settings_ref k = Some (Ref b) \<longrightarrow> cells st b = Some (Arr xs) \<longrightarrow>
            stored_configuration
              (mutate (snd (SettingsPanel_getSettings st settings_ref))
                 (fst (SettingsPanel_getSettings st settings_ref)) (Push k v))
              settings_ref k = Some (Elements (xs @ [v]))) \<and>
         (\<forall>k b f k2 v. fields_at st settings_ref k = Some (Ref b) \<longrightarrow> cells st b = Some (Obj f) \<longrightarrow>
            cells (mutate (snd (SettingsPanel_getSettings st settings_ref))
                     (fst (SettingsPanel_getSettings st settings_ref)) (SetNested k k2 v)) b =
              Some (Obj (f(k2 \<mapsto> v))))"
proof -
  obtain copy h where sc: "spread_copy (heap m) (currentSettings m) = (copy, h)"
    by (cases "spread_copy (heap m) (currentSettings m)")
  then have acc: "SystemMonitor_settings m = (copy, m\<lparr>heap := h\<rparr>)"
    by (simp add: SystemMonitor_settings_def)
  obtain copy' st1 where sp: "spread_copy st settings_ref = (copy', st1)"
    by (cases "spread_copy st settings_ref")
  then have pan: "SettingsPanel_getSettings st settings_ref = (copy', st1)"
    by (simp add: SettingsPanel_getSettings_def)
  show ?thesis
    using spread_copy_shallow [OF assms(1) sc assms(3)]
          spread_copy_shallow [OF assms(2) sp assms(3)]
    unfolding acc pan settings_content_def
    by (simp del: mutate.simps)
qed

lemma initial_settings_ran:
  "v \<in> ran initial_settings \<Longrightarrow> (case v of Ref b \<Rightarrow> b < 2 | _ \<Rightarrow> True)"
  unfolding initial_settings_def ran_def
  by (clarsimp split: if_splits)

lemma initial_refs_allocated:
  "refs_allocated (heap initial_monitor) (currentSettings initial_monitor)"
  by (auto simp: refs_allocated_def initial_monitor_def fields_at_def
           dest!: initial_settings_ran split: jsval.splits)

lemma panel_settings_ran:
  "v \<in> ran panel_settings \<Longrightarrow> (case v of Ref b \<Rightarrow> b < 3 | _ \<Rightarrow> True)"
  unfolding panel_settings_def ran_def
  by (clarsimp split: if_splits)

lemma panel_refs_allocated: "refs_allocated panel_store 2"
  by (auto simp: refs_allocated_def panel_store_def fields_at_def
           dest!: panel_settings_ran split: jsval.splits)

lemma accessor_initial:
  "fst (SystemMonitor_settings initial_monitor) = 2 \<and>
   heap (snd (SystemMonitor_settings initial_monitor)) =
     \<lparr>cells = [0 \<mapsto> Arr [], 1 \<mapsto> Obj initial_settings, 2 \<mapsto> Obj initial_settings],
      next_addr = 3\<rparr>"
  by (simp add: SystemMonitor_settings_def spread_copy_def alloc_def fields_at_def
                initial_monitor_def)

lemma initial_selected_drives: "initial_settings ''selected_drives'' = Some (Ref 0)"
  by (simp add: initial_settings_def)

lemma initial_content:
  "settings_content initial_monitor = initial_settings \<and>
   cells (heap initial_monitor) 0 = Some (Arr [])"
  by (simp add: settings_content_def fields_at_def initial_monitor_def)

lemma panel_content:
  "fields_at panel_store 2 ''windowSize'' = Some (Ref 0) \<and>
   cells panel_store 0 = Some (Obj [''width'' \<mapsto> Num 300, ''height'' \<mapsto> Num 200])"
  by (simp add: fields_at_def panel_store_def panel_settings_def)

theorem settings_accessor_shallow_copy_witness:
  "own_property_write (SetProp ''update_interval'' (Num 5)) \<and>
   own_property_write (DeleteProp ''save'') \<and>
   fst (SystemMonitor_settings initial_monitor) \<noteq> currentSettings initial_monitor \<and>
   fields_at (heap (snd (SystemMonitor_settings initial_monitor)))
     (fst (SystemMonitor_settings initial_monitor)) = initial_settings \<and>
   stored_configuration
     (mutate_all (heap (snd (SystemMonitor_settings initial_monitor)))
        (fst (SystemMonitor_settings initial_monitor))
        [SetProp ''update_interval'' (Num 5), DeleteProp ''save''])
     (currentSettings initial_monitor) =
     stored_configuration (heap initial_monitor) (currentSettings initial_monitor) \<and>
   settings_content initial_monitor ''selected_drives'' = Some (Ref 0) \<and>
   cells (heap initial_monitor) 0 = Some (Arr []) \<and>
   stored_configuration
     (mutate (heap (snd (SystemMonitor_settings initial_monitor)))
        (fst (SystemMonitor_settings initial_monitor)) (Push ''selected_drives'' (Str ''X:'')))
     (currentSettings initial_monitor) ''selected_drives'' = Some (Elements [Str ''X:'']) \<and>
   fields_at panel_store 2 ''windowSize'' = Some (Ref 0) \<and>
   cells panel_store 0 = Some (Obj [''width'' \<mapsto> Num 300, ''height'' \<mapsto> Num 200]) \<and>
   cells (mutate (snd (SettingsPanel_getSettings panel_store 2))
            (fst (SettingsPanel_getSettings panel_store 2))
            (SetNested ''windowSize'' ''width'' (Num 999))) 0 =
     Some (Obj [''width'' \<mapsto> Num 999, ''height'' \<mapsto> Num 200])"
proof -
  let ?ms = "[SetProp ''update_interval'' (Num 5), DeleteProp ''save'']"
  have a: "refs_allocated (heap initial_monitor) (currentSettings initial_monitor)"
    by (rule initial_refs_allocated)
  have b: "refs_allocated panel_store 2" by (rule panel_refs_allocated)
  have c: "\<forall>mu \<in> set ?ms. own_property_write mu" by simp
  have d: "settings_content initial_monitor ''selected_drives'' = Some (Ref 0)"
    by (simp add: initial_content initial_selected_drives)
  have e: "[''width'' \<mapsto> Num 300, ''height'' \<mapsto> Num 200](''width'' \<mapsto> Num 999) =
           [''width'' \<mapsto> Num 999, ''height'' \<mapsto> Num 200]"
    by (rule ext) simp
  note acc = settings_accessor_shallow_copy [OF a b c]
  from acc have shared_array:
    "\<forall>k b xs v. settings_content initial_monitor k = Some (Ref b) \<longrightarrow>
        cells (heap initial_monitor) b = Some (Arr xs) \<longrightarrow>
        stored_configuration
          (mutate (heap (snd (SystemMonitor_settings initial_monitor)))
             (fst (SystemMonitor_settings initial_monitor)) (Push k v))
          (currentSettings initial_monitor) k = Some (Elements (xs @ [v]))"
    by (elim conjE)
  from acc have shared_object:
    "\<forall>k b f k2 v. fields_at panel_store 2 k = Some (Ref b) \<longrightarrow> cells panel_store b = Some (Obj f) \<longrightarrow>
        cells (mutate (snd (SettingsPanel_getSettings panel_store 2))
                 (fst (SettingsPanel_getSettings panel_store 2)) (SetNested k k2 v)) b =
          Some (Obj (f(k2 \<mapsto> v)))"
    by (elim conjE)
  from acc have plain:
    "fst (SystemMonitor_settings initial_monitor) \<noteq> currentSettings initial_monitor \<and>
     fields_at (heap (snd (SystemMonitor_settings initial_monitor)))
       (fst (SystemMonitor_settings initial_monitor)) = settings_content initial_monitor \<and>
     stored_configuration
       (mutate_all (heap (snd (SystemMonitor_settings initial_monitor)))
          (fst (SystemMonitor_settings initial_monitor)) ?ms)
       (currentSettings initial_monitor) =
       stored_configuration (heap initial_monitor) (currentSettings initial_monitor)"
    by (elim conjE) (intro conjI)
  have push: "stored_configuration
     (mutate (heap (snd (SystemMonitor_settings initial_monitor)))
        (fst (SystemMonitor_settings initial_monitor)) (Push ''selected_drives'' (Str ''X:'')))
     (currentSettings initial_monitor) ''selected_drives'' = Some (Elements ([] @ [Str ''X:'']))"
    using shared_array d initial_content by blast
  have nested: "cells (mutate (snd (SettingsPanel_getSettings panel_store 2))
            (fst (SettingsPanel_getSettings panel_store 2))
            (SetNested ''windowSize'' ''width'' (Num 999))) 0 =
     Some (Obj ([''width'' \<mapsto> Num 300, ''height'' \<mapsto> Num 200](''width'' \<mapsto> Num 999)))"
    using shared_object panel_content by blast
  show ?thesis
    using plain d initial_content panel_content push nested e
    by (simp del: mutate.simps)
qed

text \<open>
  C7 as stated fails: the copy is shallow. Pushing a drive onto \<open>selected_drives\<close> through
  the object returned by the accessor changes the array the stored settings refer to.
\<close>

theorem settings_accessor_counterexample:
  "stored_configuration
     (mutate_all (heap (snd (SystemMonitor_settings initial_monitor)))
        (fst (SystemMonitor_settings initial_monitor))
        [Push ''selected_drives'' (Str ''X:'')])
     (currentSettings initial_monitor) \<noteq>
   stored_configuration (heap initial_monitor) (currentSettings initial_monitor)"
proof
  assume eq: "stored_configuration
     (mutate_all (heap (snd (SystemMonitor_settings initial_monitor)))
        (fst (SystemMonitor_settings initial_monitor))
        [Push ''selected_drives'' (Str ''X:'')])
     (currentSettings initial_monitor) =
   stored_configuration (heap initial_monitor) (currentSettings initial_monitor)"
  have after: "stored_configuration
     (mutate_all (heap (snd (SystemMonitor_settings initial_monitor)))
        (fst (SystemMonitor_settings initial_monitor))
        [Push ''selected_drives'' (Str ''X:'')])
     (currentSettings initial_monitor) ''selected_drives'' = Some (Elements [Str ''X:''])"
    by (simp add: accessor_initial stored_configuration_def mutate_all_def fields_at_def
                  resolve_def initial_selected_drives)
       (simp add: initial_monitor_def initial_selected_drives)
  have before: "stored_configuration (heap initial_monitor) (currentSettings initial_monitor)
                  ''selected_drives'' = Some (Elements [])"
    by (simp add: stored_configuration_def fields_at_def resolve_def initial_monitor_def
                  initial_selected_drives)
  from eq after before show False by simp
qed

section \<open>Window size constraints\<close>

lemma sanitizeBounds_size:
  "width (sanitizeBounds b c ds) = max (constraints.minWidth c) (min (width b) (constraints.maxWidth c)) \<and>
   height (sanitizeBounds b c ds) = max (constraints.minHeight c) (min (height b) (constraints.maxHeight c))"
  by (cases ds) (simp_all add: sanitizeBounds_def constrainToDisplay_def Let_def)

lemma setWindowSize_state:
  "currentWindow wm = Some win \<Longrightarrow>
   windowState (setWindowSize wm w h wr) =
     (windowState wm)\<lparr>width := max (minWidth (windowState wm)) (min w (maxWidth (windowState wm))),
                      height := max (minHeight (windowState wm)) (min h (maxHeight (windowState wm)))\<rparr>"
  by (simp add: setWindowSize_def saveWindowState_def Let_def)

lemma setWindowSize_closed:
  "currentWindow wm = None \<Longrightarrow> setWindowSize wm w h wr = wm"
  by (simp add: setWindowSize_def)

lemma setWindowSize_within:
  assumes "minWidth (windowState wm) \<le> maxWidth (windowState wm)"
    and "minHeight (windowState wm) \<le> maxHeight (windowState wm)"
    and "currentWindow wm = Some win"
  shows "size_within (windowState (setWindowSize wm w h wr))"
  using assms(1,2) by (simp add: setWindowSize_state [OF assms(3)] size_within_def)

lemma setWindowSize_applied:
  assumes "currentWindow wm = Some win"
  shows "map_option width (currentWindow (setWindowSize wm w h wr)) =
           Some (width (windowState (setWindowSize wm w h wr))) \<and>
         map_option height (currentWindow (setWindowSize wm w h wr)) =
           Some (height (windowState (setWindowSize wm w h wr))) \<and>
         persisted (setWindowSize wm w h wr) =
           (if wr then Some (windowState (setWindowSize wm w h wr)) else persisted wm)"
  using assms by (simp add: setWindowSize_def saveWindowState_def Let_def)

lemma setWindowSize_invariant:
  assumes "minWidth (windowState wm) \<le> maxWidth (windowState wm)"
    and "minHeight (windowState wm) \<le> maxHeight (windowState wm)"
  shows "(size_within (windowState wm) \<longrightarrow> size_within (windowState (setWindowSize wm w h wr))) \<and>
         (persisted_within wm \<longrightarrow> persisted_within (setWindowSize wm w h wr))"
proof (cases "currentWindow wm")
  case None
  then show ?thesis by (simp add: setWindowSize_closed)
next
  case (Some win)
  have st: "size_within (windowState (setWindowSize wm w h wr))"
    using assms Some by (rule setWindowSize_within)
  have "persisted_within wm \<longrightarrow> persisted_within (setWindowSize wm w h wr)"
    using st setWindowSize_applied [OF Some, of w h wr]
    by (cases wr) (simp_all add: persisted_within_def)
  then show ?thesis using st by simp
qed

text \<open>
  C8. With minWidth \<le> maxWidth and minHeight \<le> maxHeight in the window state, a
  setWindowSize on an open window leaves a window state whose size lies within the
  constraints; the window is resized to exactly that size, and when the write to storage
  goes through, the persisted state is that state. The bound is an invariant of
  setWindowSize: if the window state (and the persisted state) satisfied it before the
  call, they do afterwards, window open or not, write successful or not. sanitizeBounds
  returns a size within the constraints it is given, whatever the displays.
\<close>

theorem window_size_within_constraints:
  assumes "minWidth (windowState wm) \<le> maxWidth (windowState wm)"
    and "minHeight (windowState wm) \<le> maxHeight (windowState wm)"
    and "constraints.minWidth c \<le> constraints.maxWidth c"
    and "constraints.minHeight c \<le> constraints.maxHeight c"
  shows "(currentWindow wm \<noteq> None \<longrightarrow>
            size_within (windowState (setWindowSize wm w h wr)) \<and>
            map_option width (currentWindow (setWindowSize wm w h wr)) =
              Some (width (windowState (setWindowSize wm w h wr))) \<and>
            map_option height (currentWindow (setWindowSize wm w h wr)) =
              Some (height (windowState (setWindowSize wm w h wr))) \<and>
            (wr \<longrightarrow> persisted (setWindowSize wm w h wr) =
                      Some (windowState (setWindowSize wm w h wr)))) \<and>
         (size_within (windowState wm) \<longrightarrow> size_within (windowState (setWindowSize wm w h wr))) \<and>
         (persisted_within wm \<longrightarrow> persisted_within (setWindowSize wm w h wr)) \<and>
         constraints.minWidth c \<le> width (sanitizeBounds b c ds) \<and>
         width (sanitizeBounds b c ds) \<le> constraints.maxWidth c \<and>
         constraints.minHeight c \<le> height (sanitizeBounds b c ds) \<and>
         height (sanitizeBounds b c ds) \<le> constraints.maxHeight c"
proof -
  have san: "constraints.minWidth c \<le> width (sanitizeBounds b c ds) \<and>
         width (sanitizeBounds b c ds) \<le> constraints.maxWidth c \<and>
         constraints.minHeight c \<le> height (sanitizeBounds b c ds) \<and>
         height (sanitizeBounds b c ds) \<le> constraints.maxHeight c"
    using assms(3,4) by (simp add: sanitizeBounds_size)
  have opened: "currentWindow wm \<noteq> None \<longrightarrow>
            size_within (windowState (setWindowSize wm w h wr)) \<and>
            map_option width (currentWindow (setWindowSize wm w h wr)) =
              Some (width (windowState (setWindowSize wm w h wr))) \<and>
            map_option height (currentWindow (setWindowSize wm w h wr)) =
              Some (height (windowState (setWindowSize wm w h wr))) \<and>
            (wr \<longrightarrow> persisted (setWindowSize wm w h wr) =
                      Some (windowState (setWindowSize wm w h wr)))"
  proof
    assume "currentWindow wm \<noteq> None"
    then obtain win where win: "currentWindow wm = Some win" by auto
    show "size_within (windowState (setWindowSize wm w h wr)) \<and>
            map_option width (currentWindow (setWindowSize wm w h wr)) =
              Some (width (windowState (setWindowSize wm w h wr))) \<and>
            map_option height (currentWindow (setWindowSize wm w h wr)) =
              Some (height (windowState (setWindowSize wm w h wr))) \<and>
            (wr \<longrightarrow> persisted (setWindowSize wm w h wr) =
                      Some (windowState (setWindowSize wm w h wr)))"
      using setWindowSize_within [OF assms(1,2) win, of w h wr]
            setWindowSize_applied [OF win, of w h wr]
      by (cases wr) simp_all
  qed
  show ?thesis
    using opened san setWindowSize_invariant [OF assms(1,2), of w h wr]
    by simp
qed

theorem window_size_within_constraints_witness:
  "minWidth (windowState open_manager) \<le> maxWidth (windowState open_manager) \<and>
   minHeight (windowState open_manager) \<le> maxHeight (windowState open_manager) \<and>
   currentWindow open_manager \<noteq> None \<and>
   size_within (windowState open_manager) \<and>
   persisted_within open_manager \<and>
   size_within (windowState (setWindowSize open_manager 5000 10 True)) \<and>
   persisted (setWindowSize open_manager 5000 10 True) =
     Some (windowState (setWindowSize open_manager 5000 10 True)) \<and>
   persisted_within (setWindowSize open_manager 5000 10 True) \<and>
   width (windowState (setWindowSize open_manager 5000 10 True)) = 800 \<and>
   height (windowState (setWindowSize open_manager 5000 10 True)) = 150 \<and>
   width (sanitizeBounds \<lparr>left = 0, top = 0, width = 5000, height = 10\<rparr>
            \<lparr>constraints.minWidth = 200, constraints.minHeight = 150, constraints.maxWidth = 800, constraints.maxHeight = 600\<rparr> []) \<le> 800"
proof -
  let ?c = "\<lparr>constraints.minWidth = 200, constraints.minHeight = 150, constraints.maxWidth = 800, constraints.maxHeight = 600\<rparr> :: constraints"
  have a: "minWidth (windowState open_manager) \<le> maxWidth (windowState open_manager)"
    and b: "minHeight (windowState open_manager) \<le> maxHeight (windowState open_manager)"
    by (simp_all add: open_manager_def defaultConfig_def)
  have c: "constraints.minWidth ?c \<le> constraints.maxWidth ?c"
    and d: "constraints.minHeight ?c \<le> constraints.maxHeight ?c" by simp_all
  have e: "currentWindow open_manager \<noteq> None" by (simp add: open_manager_def)
  have f: "size_within (windowState open_manager)"
    by (simp add: open_manager_def defaultConfig_def size_within_def)
  have g: "persisted_within open_manager"
    by (simp add: open_manager_def persisted_within_def)
  have v: "width (windowState (setWindowSize open_manager 5000 10 True)) = 800 \<and>
           height (windowState (setWindowSize open_manager 5000 10 True)) = 150"
    by (simp add: setWindowSize_def saveWindowState_def open_manager_def defaultConfig_def Let_def)
  show ?thesis
    using a b e f g v
      window_size_within_constraints [OF a b c d, of 5000 10 True
        "\<lparr>left = 0, top = 0, width = 5000, height = 10\<rparr>" "[]"]
    by simp
qed

section \<open>Completeness of loaded settings\<close>

lemma spread_complete:
  "dom d \<subseteq> dom (d ++ p) \<and> (\<forall>k \<in> dom p. (d ++ p) k = p k) \<and>
   (\<forall>k. k \<notin> dom p \<longrightarrow> (d ++ p) k = d k)"
  by (auto simp: map_add_def split: option.splits)

text \<open>
  loadWindowState and the settings page's loadSettings do what is asked of a load: every
  default key is present, stored properties override, and with nothing stored (or nothing
  parseable) the result is the defaults.
\<close>

lemma loadWindowState_complete:
  "dom d \<subseteq> dom (loadWindowState d parse got) \<and>
   (got = Throws \<or> got = Returns None \<or> got = Returns (Some []) \<or>
    (\<exists>saved. got = Returns (Some saved) \<and> parse saved = None)
      \<longrightarrow> loadWindowState d parse got = d) \<and>
   (\<forall>saved parsed. got = Returns (Some saved) \<and> saved \<noteq> [] \<and> parse saved = Some parsed
      \<longrightarrow> (\<forall>k \<in> dom (own_props parsed). loadWindowState d parse got k = own_props parsed k))"
  by (auto simp: loadWindowState_def map_add_def split: outcome.splits option.splits)

lemma SettingsManager_loadSettings_complete:
  "dom d \<subseteq> dom (SettingsManager_loadSettings d got) \<and>
   (got = Throws \<or> got = Returns None \<longrightarrow> SettingsManager_loadSettings d got = d) \<and>
   (\<forall>stored. got = Returns (Some stored)
      \<longrightarrow> (\<forall>k \<in> dom (own_props stored).
             SettingsManager_loadSettings d got k = own_props stored k))"
  by (auto simp: SettingsManager_loadSettings_def map_add_def split: outcome.splits option.splits)

lemma SettingsPanel_loadSettings_with_defaults:
  "defaultSettings this = Some d \<Longrightarrow>
   dom d \<subseteq> dom (SettingsPanel_loadSettings this parse got) \<and>
   (got = Returns None \<longrightarrow> SettingsPanel_loadSettings this parse got = d)"
  by (auto simp: SettingsPanel_loadSettings_def spread_opt_def map_add_def
           split: outcome.splits option.splits)

text \<open>
  C6 fails for the settings panel. Its constructor calls loadSettings before it assigns
  defaultSettings, so the spread runs over \<open>undefined\<close>: with nothing stored the loaded
  settings are the empty object, not the defaults, and with a stored object they are the
  stored properties alone. refreshRate, a default key, is absent in both cases.
\<close>

theorem SettingsPanel_constructor_loads_without_defaults:
  "settings (SettingsPanel_constructor JSON_parse (Returns None)) = Some Map.empty \<and>
   defaultSettings (SettingsPanel_constructor JSON_parse (Returns None)) =
     Some SettingsPanel_defaults \<and>
   SettingsPanel_defaults ''refreshRate'' = Some (JNum 1000) \<and>
   settings (SettingsPanel_constructor (\<lambda>text. Some (JObj [(''theme'', JStr ''light'')]))
               (Returns (Some ''saved''))) =
     Some [''theme'' \<mapsto> JStr ''light'']"
  by (simp add: SettingsPanel_constructor_def SettingsPanel_loadSettings_def spread_opt_def
                SettingsPanel_defaults_def Let_def)

section \<open>Interval validation on the settings page\<close>

lemma enter_updateInterval_frame:
  "sync_storage (enter_updateInterval sm v) = sync_storage sm \<and>
   page_settings (enter_updateInterval sm v) = page_settings sm \<and>
   updateInterval_value (form (enter_updateInterval sm v)) = v"
  by (simp add: enter_updateInterval_def updateInterval_change_def Let_def)

lemma saveSettings_click_interval:
  "stored_interval (saveSettings_click sm True) = Some (num_of (updateInterval_value (form sm)))"
  by (simp add: stored_interval_def saveSettings_click_def saveSettings_def collectFormData_def
                Let_def)

text \<open>
  C2 as amended. The range check on the update interval is advisory. For every integer
  interval outside [1000, 30000] entered in the form, the change listener marks the input
  (border #f44336) and shows the error "Update interval must be between 1000-30000ms",
  and neither the stored configuration nor this.settings changes at that point. Save does
  not consult the check: a Save whose storage write succeeds stores the interval as
  entered.
\<close>

theorem updateInterval_validation_advisory:
  assumes "v < 1000 \<or> v > 30000"
  shows "updateInterval_border (enter_updateInterval sm (Some v)) = ''#f44336'' \<and>
         status_message (enter_updateInterval sm (Some v)) =
           Some (''Update interval must be between 1000-30000ms'', ''error'') \<and>
         sync_storage (enter_updateInterval sm (Some v)) = sync_storage sm \<and>
         page_settings (enter_updateInterval sm (Some v)) = page_settings sm \<and>
         stored_interval (saveSettings_click (enter_updateInterval sm (Some v)) True) =
           Some (JNum (of_int v))"
proof -
  have flag: "updateInterval_border (enter_updateInterval sm (Some v)) = ''#f44336'' \<and>
         status_message (enter_updateInterval sm (Some v)) =
           Some (''Update interval must be between 1000-30000ms'', ''error'')"
    using assms
    by (auto simp: enter_updateInterval_def updateInterval_change_def js_less_def
                   js_greater_def Let_def)
  have "stored_interval (saveSettings_click (enter_updateInterval sm (Some v)) True) =
          Some (num_of (Some v))"
    by (simp add: saveSettings_click_interval enter_updateInterval_frame)
  then show ?thesis
    using flag by (simp add: enter_updateInterval_frame num_of_def)
qed

theorem updateInterval_validation_advisory_witness:
  "((500::int) < 1000 \<or> (500::int) > 30000) \<and>
   updateInterval_border (enter_updateInterval loaded_page (Some 500)) = ''#f44336'' \<and>
   sync_storage (enter_updateInterval loaded_page (Some 500)) = sync_storage loaded_page \<and>
   stored_interval (saveSettings_click (enter_updateInterval loaded_page (Some 500)) True) =
     Some (JNum 500)"
proof -
  have a: "(500::int) < 1000 \<or> (500::int) > 30000" by simp
  show ?thesis
    using a updateInterval_validation_advisory [OF a, of loaded_page] by simp
qed

text \<open>
  C2 as stated fails: entering 500 ms and pressing Save changes the stored configuration,
  and the stored interval is 500, outside [1000, 30000].
\<close>

theorem out_of_range_interval_persisted_counterexample:
  "stored_interval loaded_page = None \<and>
   stored_interval (saveSettings_click (enter_updateInterval loaded_page (Some 500)) True) =
     Some (JNum 500) \<and>
   sync_storage (saveSettings_click (enter_updateInterval loaded_page (Some 500)) True) \<noteq>
     sync_storage loaded_page"
proof -
  have a: "stored_interval loaded_page = None"
    by (simp add: stored_interval_def loaded_page_def)
  have b: "stored_interval (saveSettings_click (enter_updateInterval loaded_page (Some 500)) True) =
     Some (JNum 500)"
    by (simp add: saveSettings_click_interval enter_updateInterval_frame num_of_def)
  have "sync_storage (saveSettings_click (enter_updateInterval loaded_page (Some 500)) True) \<noteq> None"
    by (simp add: saveSettings_click_def saveSettings_def)
  moreover have "sync_storage loaded_page = None" by (simp add: loaded_page_def)
  ultimately show ?thesis using a b by simp
qed

section \<open>Absent readings in the viewers\<close>

lemma createProgressBar_other:
  "ident \<noteq> k \<Longrightarrow>
   progressBars (createProgressBar ui ident label val vmax unit color) k = progressBars ui k"
  by (simp add: createProgressBar_def addTooltipSupport_def Let_def)

lemma updateProgressBar_other:
  "ident \<noteq> k \<Longrightarrow>
   progressBars (updateProgressBar ui ident label val vmax unit color) k = progressBars ui k"
  by (simp add: updateProgressBar_def Let_def split: option.splits)

lemma updateProgressBarTooltip_bars:
  "progressBars (updateProgressBarTooltip ui ident content) = progressBars ui"
  by (simp add: updateProgressBarTooltip_def split: option.splits)

lemma show_bar_other:
  "ident \<noteq> k \<Longrightarrow>
   progressBars (show_bar ui ident label val vmax unit color) k = progressBars ui k"
  by (simp add: show_bar_def createProgressBar_other updateProgressBar_other)

lemma each_drive_other:
  "take 5 k \<noteq> ''disk-'' \<Longrightarrow> progressBars (each_drive ui ds) k = progressBars ui k"
proof (induction ds arbitrary: ui)
  case Nil
  then show ?case by simp
next
  case (Cons d ds)
  have "driveId d \<noteq> k" using Cons.prems by (auto simp: driveId_def)
  then show ?case
    using Cons
    by (simp add: Let_def updateProgressBarTooltip_bars createProgressBar_other
                  updateProgressBar_other)
qed

lemma each_gpu_other:
  "take 4 k \<noteq> ''gpu-'' \<Longrightarrow> take 5 k \<noteq> ''vram-'' \<Longrightarrow> take 5 k \<noteq> ''temp-'' \<Longrightarrow>
   progressBars (each_gpu ui i gs) k = progressBars ui k"
proof (induction gs arbitrary: ui i)
  case Nil
  then show ?case by simp
next
  case (Cons g gs)
  have ne: "''gpu-'' @ dec i \<noteq> k" "''vram-'' @ dec i \<noteq> k" "''temp-'' @ dec i \<noteq> k"
    using Cons.prems by auto
  show ?case
    using Cons.prems ne
    by (simp add: Cons.IH Let_def updateProgressBarTooltip_bars show_bar_other)
qed

lemma blocks_keep_other:
  assumes "k \<noteq> ''cpu''" "k \<noteq> ''memory''"
  shows "progressBars (update_memory (update_cpu ui data) data) k = progressBars ui k"
  using assms
  by (simp add: update_cpu_def update_memory_def updateProgressBarTooltip_bars
                updateProgressBar_other split: option.splits)

lemma update_drives_other:
  assumes "take 5 k \<noteq> ''disk-''"
  shows "progressBars (update_drives ui data) k = progressBars ui k"
proof -
  have "''disk-total'' \<noteq> k" using assms by auto
  then show ?thesis
    using assms
    by (simp add: update_drives_def Let_def each_drive_other updateProgressBar_other
             split: option.splits)
qed

lemma update_gpus_other:
  "take 4 k \<noteq> ''gpu-'' \<Longrightarrow> take 5 k \<noteq> ''vram-'' \<Longrightarrow> take 5 k \<noteq> ''temp-'' \<Longrightarrow>
   progressBars (update_gpus ui data) k = progressBars ui k"
  by (simp add: update_gpus_def each_gpu_other split: option.splits)

lemma update_cpu_other:
  "k \<noteq> ''cpu'' \<Longrightarrow> progressBars (update_cpu ui data) k = progressBars ui k"
  by (simp add: update_cpu_def updateProgressBar_other split: option.splits)

lemma update_memory_other:
  "k \<noteq> ''memory'' \<Longrightarrow> progressBars (update_memory ui data) k = progressBars ui k"
  by (simp add: update_memory_def updateProgressBar_other updateProgressBarTooltip_bars
           split: option.splits)

lemma take4_of_take5: "take 5 k = s \<Longrightarrow> take 4 k = take 4 s"
  by (auto simp: min_def)

lemma initial_bars:
  "progressBars (initializeMonitorDisplays ui) ''cpu'' =
     Some \<lparr>label_text = ''CPU Usage'', value_shown = 0, max_shown = 100, unit_shown = ''%'',
           fill_width = 0, fill_color = color_cpu, percent_text = 0\<rparr> \<and>
   progressBars (initializeMonitorDisplays ui) ''memory'' =
     Some \<lparr>label_text = ''Memory Usage'', value_shown = 0, max_shown = 100, unit_shown = ''%'',
           fill_width = 0, fill_color = color_memory, percent_text = 0\<rparr> \<and>
   progressBars (initializeMonitorDisplays ui) ''disk-total'' =
     Some \<lparr>label_text = ''Total Disk Usage'', value_shown = 0, max_shown = 100,
           unit_shown = ''%'', fill_width = 0, fill_color = color_disk, percent_text = 0\<rparr>"
  by (simp add: initializeMonitorDisplays_def createProgressBar_def addTooltipSupport_def Let_def)

lemma sampled_bars:
  "progressBars sampled_display ''cpu'' =
     Some \<lparr>label_text = ''CPU Usage'', value_shown = 42, max_shown = 100, unit_shown = ''%'',
           fill_width = 42, fill_color = color_cpu, percent_text = 42\<rparr> \<and>
   progressBars sampled_display ''memory'' =
     Some \<lparr>label_text = ''Memory Usage'', value_shown = 50, max_shown = 100, unit_shown = ''%'',
           fill_width = 50, fill_color = color_memory, percent_text = 50\<rparr> \<and>
   progressBars sampled_display ''disk-total'' =
     Some \<lparr>label_text = ''Total Disk Usage'', value_shown = 0, max_shown = 100,
           unit_shown = ''%'', fill_width = 0, fill_color = color_disk, percent_text = 0\<rparr> \<and>
   progressBars sampled_display ''gpu-0'' = None"
proof -
  have g: "update_gpus u first_reading = u" "update_drives u first_reading = u" for u
    by (simp_all add: update_gpus_def update_drives_def first_reading_def)
  show ?thesis
    unfolding sampled_display_def updateMonitorDisplays_def g fresh_display_def
    using initial_bars [of "\<lparr>progressBars = Map.empty, tooltips = Map.empty, showTooltips = True\<rparr>"]
    by (simp add: update_memory_def update_cpu_def first_reading_def updateProgressBar_def
                  updateProgressBarTooltip_def Let_def
                  initializeMonitorDisplays_def createProgressBar_def addTooltipSupport_def
             split: option.splits)
qed

lemma absent_source_frame:
  "(cpu data = None \<longrightarrow>
      update_cpu ui data = ui \<and>
      progressBars (updateMonitorDisplays ui data) ''cpu'' = progressBars ui ''cpu'') \<and>
   (memory data = None \<longrightarrow>
      update_memory ui data = ui \<and>
      progressBars (updateMonitorDisplays ui data) ''memory'' = progressBars ui ''memory'') \<and>
   (drives data = None \<or> drives data = Some [] \<longrightarrow>
      update_drives ui data = ui \<and>
      (\<forall>k. take 5 k = ''disk-'' \<longrightarrow>
         progressBars (updateMonitorDisplays ui data) k = progressBars ui k)) \<and>
   (gpus data = None \<or> gpus data = Some [] \<longrightarrow>
      update_gpus ui data = ui \<and>
      (\<forall>k. take 4 k = ''gpu-'' \<or> take 5 k = ''vram-'' \<or> take 5 k = ''temp-'' \<longrightarrow>
         progressBars (updateMonitorDisplays ui data) k = progressBars ui k))"
proof (intro conjI impI allI)
  assume "cpu data = None"
  then show "update_cpu ui data = ui" by (simp add: update_cpu_def)
  then show "progressBars (updateMonitorDisplays ui data) ''cpu'' = progressBars ui ''cpu''"
    by (simp add: updateMonitorDisplays_def update_gpus_other update_drives_other
                  update_memory_other)
next
  assume "memory data = None"
  then show m: "update_memory ui data = ui" by (simp add: update_memory_def)
  from \<open>memory data = None\<close> have "\<And>u. update_memory u data = u" by (simp add: update_memory_def)
  then show "progressBars (updateMonitorDisplays ui data) ''memory'' = progressBars ui ''memory''"
    by (simp add: updateMonitorDisplays_def update_gpus_other update_drives_other
                  update_cpu_other)
next
  assume a: "drives data = None \<or> drives data = Some []"
  then show "update_drives ui data = ui" by (auto simp: update_drives_def)
  fix k :: string assume k: "take 5 k = ''disk-''"
  from a have id: "\<And>u. update_drives u data = u" by (auto simp: update_drives_def)
  have "take 4 k = ''disk''" using take4_of_take5 [OF k] by simp
  then have "take 4 k \<noteq> ''gpu-''" by simp
  moreover have "take 5 k \<noteq> ''vram-''" "take 5 k \<noteq> ''temp-''" using k by simp_all
  moreover have "k \<noteq> ''cpu''" "k \<noteq> ''memory''" using k by auto
  ultimately show "progressBars (updateMonitorDisplays ui data) k = progressBars ui k"
    by (simp add: updateMonitorDisplays_def id update_gpus_other blocks_keep_other)
next
  assume a: "gpus data = None \<or> gpus data = Some []"
  then show "update_gpus ui data = ui" by (auto simp: update_gpus_def)
  fix k :: string
  assume k: "take 4 k = ''gpu-'' \<or> take 5 k = ''vram-'' \<or> take 5 k = ''temp-''"
  from a have id: "\<And>u. update_gpus u data = u" by (auto simp: update_gpus_def)
  have "take 5 k \<noteq> ''disk-''"
    using k take4_of_take5 [of k "''disk-''"] by auto
  moreover have "k \<noteq> ''cpu''" "k \<noteq> ''memory''" using k by auto
  ultimately show "progressBars (updateMonitorDisplays ui data) k = progressBars ui k"
    by (simp add: updateMonitorDisplays_def id update_drives_other blocks_keep_other)
qed

lemma popup_rows:
  "(status_payload.gpus status = None \<or> status_payload.gpus status = Some [] \<longrightarrow>
      map fst (updateQuickStats status) = [''CPU Usage'', ''Memory Usage'', ''Disk Usage'']) \<and>
   (cpu_utilization status = None \<longrightarrow>
      updateQuickStats status ! 0 = (''CPU Usage'', Plain 0)) \<and>
   (ram_used_percent status = None \<longrightarrow>
      updateQuickStats status ! 1 = (''Memory Usage'', Plain 0)) \<and>
   (hdd_used_percent status = None \<longrightarrow>
      updateQuickStats status ! 2 = (''Disk Usage'', Plain 0)) \<and>
   (status_payload.gpus status2 = Some (g # gs) \<longrightarrow> status_gpu.gpu_utilization g = None \<longrightarrow>
      updateQuickStats status2 ! 3 = (''GPU Usage'', Plain 0))"
  by (auto simp: updateQuickStats_def fixed_or_zero_def value_or_zero_def)




section \<open>The fill of a progress bar\<close>

text \<open>
  C10. For every update with value at least 0: if the bar exists, its fill percentage
  afterwards is min((value / max) * 100, 100) when max is positive and 0 otherwise, so it
  lies between 0 and 100 and the division is never carried out for max at most 0; the
  percentage printed on the bar is the same number. If the bar does not exist, nothing
  is changed.
\<close>

theorem updateProgressBar_fill_bounded:
  assumes "0 \<le> val"
  shows "(progressBars ui ident = None \<longrightarrow>
            updateProgressBar ui ident label val vmax unit color = ui) \<and>
         (\<forall>element. progressBars ui ident = Some element \<longrightarrow>
            (\<exists>bar. progressBars (updateProgressBar ui ident label val vmax unit color) ident =
                     Some bar \<and>
                   fill_width bar = (if vmax > 0 then min ((val / vmax) * 100) 100 else 0) \<and>
                   percent_text bar = fill_width bar \<and>
                   0 \<le> fill_width bar \<and> fill_width bar \<le> 100 \<and>
                   (vmax \<le> 0 \<longrightarrow> fill_width bar = 0)))"
  using assms
  by (auto simp: updateProgressBar_def Let_def)

lemma fresh_cpu_bar:
  "progressBars fresh_display ''cpu'' =
     Some \<lparr>label_text = ''CPU Usage'', value_shown = 0, max_shown = 100, unit_shown = ''%'',
           fill_width = 0, fill_color = color_cpu, percent_text = 0\<rparr>"
  by (simp add: fresh_display_def initializeMonitorDisplays_def createProgressBar_def
                addTooltipSupport_def Let_def)

theorem updateProgressBar_fill_bounded_witness:
  "(0::real) \<le> 250 \<and>
   progressBars fresh_display ''cpu'' \<noteq> None \<and>
   map_option fill_width
     (progressBars (updateProgressBar fresh_display ''cpu'' ''CPU Usage'' 250 100 ''%'' color_cpu)
        ''cpu'') = Some 100 \<and>
   map_option fill_width
     (progressBars (updateProgressBar fresh_display ''cpu'' ''CPU Usage'' 250 0 ''%'' color_cpu)
        ''cpu'') = Some 0 \<and>
   progressBars fresh_display ''gpu-0'' = None \<and>
   updateProgressBar fresh_display ''gpu-0'' ''GPU 0'' 250 100 ''%'' color_gpu = fresh_display"
proof -
  have a: "(0::real) \<le> 250" by simp
  have c: "progressBars fresh_display ''gpu-0'' = None"
    by (simp add: fresh_display_def initializeMonitorDisplays_def createProgressBar_def
                  addTooltipSupport_def Let_def)
  have b: "progressBars fresh_display ''cpu'' \<noteq> None" by (simp add: fresh_cpu_bar)
  show ?thesis
    using a b c
      updateProgressBar_fill_bounded [OF a, of fresh_display "''gpu-0''" "''GPU 0''" 100 "''%''" color_gpu]
      updateProgressBar_fill_bounded [OF a, of fresh_display "''cpu''" "''CPU Usage''" 100 "''%''" color_cpu]
      updateProgressBar_fill_bounded [OF a, of fresh_display "''cpu''" "''CPU Usage''" 0 "''%''" color_cpu]
    by (auto simp: fresh_cpu_bar)
qed

section \<open>Snapshot sequence numbers\<close>

lemma step_sequences:
  "map sequence (published s) = [n0..<next_sequence s] \<Longrightarrow> n0 \<le> next_sequence s \<Longrightarrow>
   map sequence (published (step s e)) = [n0..<next_sequence (step s e)] \<and>
   n0 \<le> next_sequence (step s e)"
  by (cases e) (auto simp: aggregate_def Let_def)

lemma run_sequences:
  "map sequence (published s) = [n0..<next_sequence s] \<Longrightarrow> n0 \<le> next_sequence s \<Longrightarrow>
   map sequence (published (run s es)) = [n0..<next_sequence (run s es)]"
  unfolding run_def
proof (induction es arbitrary: s)
  case Nil
  then show ?case by simp
next
  case (Cons e es)
  then show ?case using step_sequences [of s n0 e] by simp
qed

text \<open>
  C5. In every run of the sampler loop from process start, any two consecutive published
  snapshots have sequence numbers that differ by exactly 1; the sequence numbers are
  strictly increasing and no two snapshots share one.
\<close>

theorem snapshot_sequence_consecutive:
  "(\<forall>i. Suc i < length (published (run (initial_sampler cfg) es)) \<longrightarrow>
         sequence (published (run (initial_sampler cfg) es) ! Suc i) =
           sequence (published (run (initial_sampler cfg) es) ! i) + 1) \<and>
   sorted_wrt (<) (map sequence (published (run (initial_sampler cfg) es))) \<and>
   distinct (map sequence (published (run (initial_sampler cfg) es)))"
proof -
  let ?s = "run (initial_sampler cfg) es"
  have seqs: "map sequence (published ?s) = [0..<next_sequence ?s]"
    by (rule run_sequences) (simp_all add: initial_sampler_def)
  have len: "length (published ?s) = next_sequence ?s"
    using arg_cong [OF seqs, of length] by simp
  have nth: "\<And>i. i < length (published ?s) \<Longrightarrow> sequence (published ?s ! i) = i"
  proof -
    fix i assume i: "i < length (published ?s)"
    then have "map sequence (published ?s) ! i = [0..<next_sequence ?s] ! i"
      using seqs by simp
    then show "sequence (published ?s ! i) = i" using i len by simp
  qed
  have "\<forall>i. Suc i < length (published ?s) \<longrightarrow>
          sequence (published ?s ! Suc i) = sequence (published ?s ! i) + 1"
    using nth by simp
  moreover have "sorted_wrt (<) (map sequence (published ?s))"
    unfolding seqs by (simp add: sorted_wrt_upt)
  moreover have "distinct (map sequence (published ?s))"
    unfolding seqs by simp
  ultimately show ?thesis by blast
qed

theorem snapshot_sequence_consecutive_witness:
  "Suc 0 < length (published (run (initial_sampler default_configuration)
                     [Start, Tick 10 [], Update [CPU] 2000, Tick 20 [GPU], Stop, Tick 30 [],
                      Start, SkippedTick, Tick 40 []])) \<and>
   sequence (published (run (initial_sampler default_configuration)
                     [Start, Tick 10 [], Update [CPU] 2000, Tick 20 [GPU], Stop, Tick 30 [],
                      Start, SkippedTick, Tick 40 []]) ! Suc 0) =
     sequence (published (run (initial_sampler default_configuration)
                     [Start, Tick 10 [], Update [CPU] 2000, Tick 20 [GPU], Stop, Tick 30 [],
                      Start, SkippedTick, Tick 40 []]) ! 0) + 1"
proof -
  let ?es = "[Start, Tick 10 [], Update [CPU] 2000, Tick 20 [GPU], Stop, Tick 30 [],
              Start, SkippedTick, Tick 40 []]"
  have len: "length (published (run (initial_sampler default_configuration) ?es)) = 3"
    by (simp add: run_def initial_sampler_def default_configuration_def aggregate_def Let_def)
  then have a: "Suc 0 < length (published (run (initial_sampler default_configuration) ?es))"
    by simp
  show ?thesis
    using a snapshot_sequence_consecutive [of default_configuration ?es] by blast
qed

end
